theory Spec2Isabelle
  imports Main "HOL-Library.Monad_Syntax"
begin

section \<open>Numeric helpers\<close>

text \<open>
  All on-chain amounts are JavaScript \<open>bigint\<close> values: unbounded integers.
  \<open>a / b\<close> on \<open>bigint\<close> truncates toward zero, which differs from HOL's
  flooring \<open>div\<close> on negative operands, so it is written out.
\<close>

type_synonym bigint = int

definition bigint_div :: "bigint \<Rightarrow> bigint \<Rightarrow> bigint" where
  "bigint_div a b = sgn a * sgn b * (\<bar>a\<bar> div \<bar>b\<bar>)"

text \<open>
  Modelled from the spec: \<open>minBigInt\<close>, \<open>maxBigInt\<close> and \<open>clampToPositive\<close>
  are imported from \<open>@/utils\<close>, whose source is not among the sources. The spec gives: "minBigInt(a, b), maxBigInt(a, b): total order over
  arbitrary-precision integers" and "clampToPositive(x): returns x if x > 0, else 0".
\<close>

definition minBigInt :: "bigint \<Rightarrow> bigint \<Rightarrow> bigint" where
  "minBigInt a b = (if a < b then a else b)"

definition maxBigInt :: "bigint \<Rightarrow> bigint \<Rightarrow> bigint" where
  "maxBigInt a b = (if a > b then a else b)"

definition clampToPositive :: "bigint \<Rightarrow> bigint" where
  "clampToPositive x = (if x > 0 then x else 0)"

text \<open>
  \<open>useFlashLoanPreview.ts\<close>, \<open>reduceByPrecisionBuffer\<close>:
  \<^verbatim>\<open>const numerator = 99_999_999n; const denominator = 100_000_000n;
  return (value * numerator) / denominator;\<close>
\<close>

definition reduceByPrecisionBuffer :: "bigint \<Rightarrow> bigint" where
  "reduceByPrecisionBuffer v = bigint_div (v * 99999999) 100000000"

text \<open>\<open>constants\<close>: \<open>GAS_RESERVE_WEI = parseEther("0.002")\<close>, that is \<open>2 * 10^15\<close> wei.\<close>

definition GAS_RESERVE_WEI :: bigint where
  "GAS_RESERVE_WEI = 2000000000000000"


section \<open>The vault context: balances, vault limits and user-facing maxima\<close>

text \<open>
  The context keeps every amount as a decimal string produced by \<open>formatUnits\<close> and
  reads it back with \<open>parseUnits\<close>/\<open>parseEther\<close>. A field of the model holds the
  integer that \<open>parseUnits\<close> returns for the stored string, and \<open>None\<close> when
  \<open>parseUnits\<close> throws on it (the initial value \<open>''\<close> of every field).
\<close>

record VaultContextState =
  ethBalance :: "bigint option"
  sharesBalance :: "bigint option"
  borrowTokenBalance :: "bigint option"
  collateralTokenBalance :: "bigint option"
  vaultMaxDeposit :: "bigint option"
  vaultMaxRedeem :: "bigint option"
  vaultMaxMint :: "bigint option"
  vaultMaxWithdraw :: "bigint option"
  vaultMaxDepositCollateral :: "bigint option"
  vaultMaxRedeemCollateral :: "bigint option"
  vaultMaxMintCollateral :: "bigint option"
  vaultMaxWithdrawCollateral :: "bigint option"
  maxDeposit :: "bigint option"
  maxRedeem :: "bigint option"
  maxMint :: "bigint option"
  maxWithdraw :: "bigint option"
  maxDepositCollateral :: "bigint option"
  maxRedeemCollateral :: "bigint option"
  maxMintCollateral :: "bigint option"
  maxWithdrawCollateral :: "bigint option"
  isRefreshingBalances :: bool

text \<open>Which of the nullable handles of the context are set.\<close>

record Handles =
  hasPublicProvider :: bool
  hasCurrentNetwork :: bool
  hasAddress :: bool
  hasVaultLens :: bool
  hasBorrowTokenLens :: bool
  hasCollateralTokenLens :: bool

text \<open>
  The chain reads of one balance refresh; \<open>None\<close> is a rejected promise.
  \<open>Promise.all\<close> rejects as soon as one of its members does.
\<close>

record BalanceReads =
  getBalance :: "bigint option"
  vaultLens_balanceOf :: "bigint option"
  borrowTokenLens_balanceOf :: "bigint option"
  collateralTokenLens_balanceOf :: "bigint option"

definition promiseAll3 :: "'a option \<Rightarrow> 'b option \<Rightarrow> 'c option \<Rightarrow> ('a \<times> 'b \<times> 'c) option" where
  "promiseAll3 a b c =
     (case a of None \<Rightarrow> None | Some x \<Rightarrow>
      (case b of None \<Rightarrow> None | Some y \<Rightarrow>
       (case c of None \<Rightarrow> None | Some z \<Rightarrow> Some (x, y, z))))"

text \<open>
  \<open>loadBalances\<close> (vault context). The \<open>try\<close> block sets \<open>ethBalance\<close> right after
  its own read, then awaits the three token reads together and sets their three fields;
  \<open>catch\<close> only logs; \<open>finally\<close> clears the loading flag of a manual refresh.
\<close>

definition loadBalances :: "Handles \<Rightarrow> BalanceReads \<Rightarrow> bool \<Rightarrow> VaultContextState \<Rightarrow> VaultContextState" where
  "loadBalances h rd isManualRefresh st =
     (if \<not> hasPublicProvider h \<or> \<not> hasAddress h \<or> \<not> hasVaultLens h
         \<or> \<not> hasBorrowTokenLens h \<or> \<not> hasCollateralTokenLens h then st
      else
        let st1 = (if isManualRefresh then st\<lparr>isRefreshingBalances := True\<rparr> else st);
            st2 = (case getBalance rd of
                     None \<Rightarrow> st1
                   | Some ethBalanceRaw \<Rightarrow>
                       let st' = st1\<lparr>ethBalance := Some ethBalanceRaw\<rparr> in
                       (case promiseAll3 (vaultLens_balanceOf rd) (borrowTokenLens_balanceOf rd)
                                         (collateralTokenLens_balanceOf rd) of
                          None \<Rightarrow> st'
                        | Some (sharesBalanceRaw, borrowTokenBalanceRaw, collateralTokenBalanceRaw) \<Rightarrow>
                            st'\<lparr>sharesBalance := Some sharesBalanceRaw,
                                borrowTokenBalance := Some borrowTokenBalanceRaw,
                                collateralTokenBalance := Some collateralTokenBalanceRaw\<rparr>))
        in (if isManualRefresh then st2\<lparr>isRefreshingBalances := False\<rparr> else st2))"

text \<open>
  The two preview reads \<open>calculateMaxValues\<close> awaits; \<open>None\<close> is a rejected promise.
\<close>

record PreviewReads =
  previewDeposit :: "bigint \<Rightarrow> bigint option"
  previewDepositCollateral :: "bigint \<Rightarrow> bigint option"

text \<open>
  \<open>calculateMaxValues\<close> (vault context). \<open>isBorrowTokenWeth\<close> and
  \<open>isCollateralTokenWeth\<close> are the results of \<open>isWETHAddress\<close> on the two token
  addresses. Everything runs inside one \<open>try\<close>: a throwing \<open>parseUnits\<close> or a
  rejected preview read skips all eight setters, which are the last statements.
\<close>

definition calculateMaxValues_try ::
  "bool \<Rightarrow> bool \<Rightarrow> PreviewReads \<Rightarrow> VaultContextState \<Rightarrow> VaultContextState option" where
  "calculateMaxValues_try isBorrowTokenWeth isCollateralTokenWeth vl st = do {
     ethBalanceWei \<leftarrow> ethBalance st;
     borrowTokenBalanceWei \<leftarrow> borrowTokenBalance st;
     sharesBalanceWei \<leftarrow> sharesBalance st;
     collateralTokenBalanceWei \<leftarrow> collateralTokenBalance st;
     vaultMaxDepositWei \<leftarrow> vaultMaxDeposit st;
     vaultMaxRedeemWei \<leftarrow> vaultMaxRedeem st;
     vaultMaxMintWei \<leftarrow> vaultMaxMint st;
     vaultMaxWithdrawWei \<leftarrow> vaultMaxWithdraw st;
     vaultMaxDepositCollateralWei \<leftarrow> vaultMaxDepositCollateral st;
     vaultMaxRedeemCollateralWei \<leftarrow> vaultMaxRedeemCollateral st;
     vaultMaxMintCollateralWei \<leftarrow> vaultMaxMintCollateral st;
     vaultMaxWithdrawCollateralWei \<leftarrow> vaultMaxWithdrawCollateral st;
     let availableEthForBorrowWei =
           (if isBorrowTokenWeth then clampToPositive (ethBalanceWei - GAS_RESERVE_WEI) else 0);
     let availableEthForCollateralWei =
           (if isCollateralTokenWeth then clampToPositive (ethBalanceWei - GAS_RESERVE_WEI) else 0);
     let depositBudgetWei =
           (if isBorrowTokenWeth then borrowTokenBalanceWei + availableEthForBorrowWei
            else borrowTokenBalanceWei);
     let maxAvailableDepositWei = minBigInt depositBudgetWei vaultMaxDepositWei;
     let maxAvailableRedeemWei = minBigInt sharesBalanceWei vaultMaxRedeemWei;
     rawSharesForBorrowToken \<leftarrow> previewDeposit vl borrowTokenBalanceWei;
     rawSharesForEth \<leftarrow>
        (if isBorrowTokenWeth then previewDeposit vl availableEthForBorrowWei else Some 0);
     let mintBudgetSharesWei = rawSharesForBorrowToken + rawSharesForEth;
     let maxAvailableMintWei = minBigInt mintBudgetSharesWei vaultMaxMintWei;
     let depositCollateralBudgetWei =
           (if isCollateralTokenWeth then collateralTokenBalanceWei + availableEthForCollateralWei
            else collateralTokenBalanceWei);
     let maxAvailableDepositCollateralWei =
           minBigInt depositCollateralBudgetWei vaultMaxDepositCollateralWei;
     let maxAvailableRedeemCollateralWei = minBigInt sharesBalanceWei vaultMaxRedeemCollateralWei;
     rawSharesForCollateral \<leftarrow> previewDepositCollateral vl collateralTokenBalanceWei;
     rawSharesForEthCollateral \<leftarrow>
        (if isCollateralTokenWeth then previewDepositCollateral vl availableEthForCollateralWei
         else Some 0);
     let mintCollateralBudgetSharesWei = rawSharesForCollateral + rawSharesForEthCollateral;
     let maxAvailableMintCollateralWei =
           minBigInt mintCollateralBudgetSharesWei vaultMaxMintCollateralWei;
     let maxAvailableWithdrawTokens = vaultMaxWithdrawWei;
     let maxAvailableWithdrawCollateralTokens = vaultMaxWithdrawCollateralWei;
     Some (st\<lparr>maxDeposit := Some maxAvailableDepositWei,
              maxRedeem := Some maxAvailableRedeemWei,
              maxMint := Some maxAvailableMintWei,
              maxWithdraw := Some maxAvailableWithdrawTokens,
              maxDepositCollateral := Some maxAvailableDepositCollateralWei,
              maxRedeemCollateral := Some maxAvailableRedeemCollateralWei,
              maxMintCollateral := Some maxAvailableMintCollateralWei,
              maxWithdrawCollateral := Some maxAvailableWithdrawCollateralTokens\<rparr>)
   }"

definition calculateMaxValues ::
  "Handles \<Rightarrow> bool \<Rightarrow> bool \<Rightarrow> PreviewReads \<Rightarrow> VaultContextState \<Rightarrow> VaultContextState" where
  "calculateMaxValues h isBorrowTokenWeth isCollateralTokenWeth vl st =
     (if \<not> hasPublicProvider h \<or> \<not> hasCurrentNetwork h \<or> \<not> hasAddress h \<or> \<not> hasVaultLens h
         \<or> \<not> hasBorrowTokenLens h \<or> \<not> hasCollateralTokenLens h then st
      else (case calculateMaxValues_try isBorrowTokenWeth isCollateralTokenWeth vl st of
              None \<Rightarrow> st
            | Some st' \<Rightarrow> st'))"


text \<open>
  The state the context starts from: every string field is \<open>useState('')\<close>, which
  \<open>parseUnits\<close> rejects, and no refresh is running.
\<close>

definition initialVaultContextState :: VaultContextState where
  "initialVaultContextState =
     \<lparr>ethBalance = None, sharesBalance = None, borrowTokenBalance = None,
      collateralTokenBalance = None,
      vaultMaxDeposit = None, vaultMaxRedeem = None, vaultMaxMint = None, vaultMaxWithdraw = None,
      vaultMaxDepositCollateral = None, vaultMaxRedeemCollateral = None,
      vaultMaxMintCollateral = None, vaultMaxWithdrawCollateral = None,
      maxDeposit = None, maxRedeem = None, maxMint = None, maxWithdraw = None,
      maxDepositCollateral = None, maxRedeemCollateral = None, maxMintCollateral = None,
      maxWithdrawCollateral = None, isRefreshingBalances = False\<rparr>"

text \<open>A context in which every handle is set.\<close>

definition allHandles :: Handles where
  "allHandles = \<lparr>hasPublicProvider = True, hasCurrentNetwork = True, hasAddress = True,
                  hasVaultLens = True, hasBorrowTokenLens = True, hasCollateralTokenLens = True\<rparr>"



section \<open>Awaited calls and thrown errors\<close>

text \<open>
  A value thrown by an awaited call. The handlers only ask one question of it,
  \<open>isUserRejected(err)\<close> (a helper of \<open>@/utils\<close>, not among the sources), so the error
  carries the answer.
\<close>

datatype js_error = JsError (isUserRejected: bool)

text \<open>An awaited call either rejects (\<open>Inl\<close>) or resolves (\<open>Inr\<close>).\<close>

type_synonym 'a promise = "js_error + 'a"

text \<open>
  A transaction a handler sends through the signer, in the order sent. A sent transaction
  resolves to a response whose \<open>wait()\<close> is awaited next: the response is modelled by
  the outcome of that wait (\<open>None\<close>: confirmed).
\<close>

type_synonym tx_response = "js_error option"

datatype TokenType = Shares | Borrow | Collateral


section \<open>The low-level rebalance handler\<close>

datatype RebalanceActionType = RMint | RBurn | RProvide | RReceive

record Leg =
  amount :: bigint
  tokenType :: TokenType

record ReceiveAndProvide =
  receive :: "Leg list"
  provide :: "Leg list"

text \<open>The preview of a rebalance: each delta may be absent (\<open>undefined\<close>).\<close>

record PreviewData =
  deltaCollateral :: "bigint option"
  deltaBorrow :: "bigint option"
  deltaShares :: "bigint option"

text \<open>
  \<open>addToList\<close> inside \<open>getReceiveAndProvide\<close>: pushes onto one of the two lists that
  the closure captures, so the model threads both lists.
\<close>

definition addToList :: "bigint option \<Rightarrow> TokenType \<Rightarrow> bool \<Rightarrow> ReceiveAndProvide \<Rightarrow> ReceiveAndProvide" where
  "addToList v tt invertSign rp =
     (case v of
        None \<Rightarrow> rp
      | Some val \<Rightarrow>
          if val = 0 then rp
          else
            let isPositive = (if invertSign then val < 0 else val > 0);
                absValue = (if val < 0 then - val else val)
            in if isPositive then rp\<lparr>provide := provide rp @ [\<lparr>amount = absValue, tokenType = tt\<rparr>]\<rparr>
               else rp\<lparr>receive := receive rp @ [\<lparr>amount = absValue, tokenType = tt\<rparr>]\<rparr>)"

text \<open>
  \<open>getReceiveAndProvide\<close> of the low-level rebalance handler; \<open>amt\<close> is the signed
  \<open>amount\<close> of the component state and \<open>rebalanceType\<close> its property.
\<close>

definition getReceiveAndProvide ::
  "PreviewData option \<Rightarrow> bigint option \<Rightarrow> TokenType \<Rightarrow> ReceiveAndProvide" where
  "getReceiveAndProvide previewData amt rebalanceType =
     (case previewData of
        None \<Rightarrow> \<lparr>receive = [], provide = []\<rparr>
      | Some pd \<Rightarrow>
          let rp0 = \<lparr>receive = [], provide = []\<rparr>;
              rp1 =
                (case amt of
                   None \<Rightarrow> rp0
                 | Some a \<Rightarrow>
                     if a = 0 then rp0
                     else
                       let isInputPositive =
                             (if rebalanceType = Shares then a > 0
                              else if rebalanceType = Borrow then a < 0
                              else a > 0);
                           absAmount = (if a < 0 then - a else a);
                           leg = \<lparr>amount = absAmount, tokenType = rebalanceType\<rparr>
                       in if isInputPositive then
                            (if rebalanceType = Shares then rp0\<lparr>receive := receive rp0 @ [leg]\<rparr>
                             else rp0\<lparr>provide := provide rp0 @ [leg]\<rparr>)
                          else
                            (if rebalanceType = Shares then rp0\<lparr>provide := provide rp0 @ [leg]\<rparr>
                             else rp0\<lparr>receive := receive rp0 @ [leg]\<rparr>))
          in if rebalanceType = Shares then
               addToList (deltaBorrow pd) Borrow True
                 (addToList (deltaCollateral pd) Collateral False rp1)
             else if rebalanceType = Borrow then
               addToList (deltaShares pd) Shares True
                 (addToList (deltaCollateral pd) Collateral False rp1)
             else
               addToList (deltaShares pd) Shares True
                 (addToList (deltaBorrow pd) Borrow True rp1))"

text \<open>The reads of the vault lens that \<open>loadMaxValue\<close> awaits.\<close>

record MaxRebalanceReads =
  maxLowLevelRebalanceShares :: "bigint promise"
  maxLowLevelRebalanceBorrow :: "bigint promise"
  maxLowLevelRebalanceCollateral :: "bigint promise"

text \<open>
  \<open>loadMaxValue\<close> of the low-level rebalance handler, as the value handed to
  \<open>setMaxValue\<close>: \<open>None\<close> when the function returns or throws before the setter
  (no vault lens, a rejected read, a balance string that \<open>parseUnits\<close> rejects), in
  which case \<open>maxValue\<close> keeps its previous value. \<open>borrowBal\<close> and
  \<open>collateralBal\<close> are what \<open>parseUnits\<close> returns for the balance strings of the
  context, \<open>None\<close> when it throws.
\<close>

definition loadMaxValue ::
  "MaxRebalanceReads option \<Rightarrow> TokenType \<Rightarrow> RebalanceActionType \<Rightarrow> bigint option \<Rightarrow> bigint option
     \<Rightarrow> bigint option" where
  "loadMaxValue vaultLens rebalanceType actionType borrowBal collateralBal =
     (case vaultLens of
        None \<Rightarrow> None
      | Some vl \<Rightarrow>
          if rebalanceType = Shares then
            (case maxLowLevelRebalanceShares vl of Inl e \<Rightarrow> None | Inr mx \<Rightarrow> Some mx)
          else
            (case (if rebalanceType = Borrow then
                     (case maxLowLevelRebalanceBorrow vl of
                        Inl e \<Rightarrow> None
                      | Inr vm \<Rightarrow> (case borrowBal of None \<Rightarrow> None | Some ub \<Rightarrow> Some (vm, ub)))
                   else
                     (case maxLowLevelRebalanceCollateral vl of
                        Inl e \<Rightarrow> None
                      | Inr vm \<Rightarrow> (case collateralBal of None \<Rightarrow> None | Some ub \<Rightarrow> Some (vm, ub)))) of
               None \<Rightarrow> None
             | Some (vaultMax, userBalance) \<Rightarrow>
                 let isVaultProvideDirection = (vaultMax < 0);
                     isUserProvideAction = (actionType = RProvide)
                 in if isVaultProvideDirection \<noteq> isUserProvideAction then Some 0
                    else if vaultMax < 0 then
                      Some (if vaultMax > - userBalance then vaultMax else - userBalance)
                    else
                      Some (if vaultMax < userBalance then vaultMax else userBalance)))"



section \<open>The flash-loan handlers: minimum available amounts\<close>

text \<open>
  The reads \<open>loadMinAvailable\<close> awaits: the zero-amount rebalance preview
  \<open>previewLowLevelRebalanceBorrow(0)\<close>, which resolves to a pair whose second component
  is \<open>deltaShares\<close> (\<open>dShares\<close> below), the balance of the variable-debt token held by
  the vault, and the two conversions of the vault.
\<close>

record MinAvailableReads =
  previewLowLevelRebalanceBorrow_0 :: "(bigint \<times> bigint) promise"
  variableDebtToken_balanceOf :: "bigint promise"
  convertToShares :: "bigint \<Rightarrow> bigint promise"
  convertToAssets :: "bigint \<Rightarrow> bigint promise"

text \<open>
  The minima as the amounts whose formatted strings the components hold; \<open>None\<close> is the
  initial \<open>''\<close>.
\<close>

record HelperMinState =
  minMint :: "bigint option"
  minRedeem :: "bigint option"

record DepositWithdrawMinState =
  minDeposit :: "bigint option"
  minWithdraw :: "bigint option"

text \<open>
  \<open>loadMinAvailable\<close> of \<open>FlashLoanHelperHandler\<close>. \<open>ready\<close> is the guard
  \<open>vaultLens && publicProvider && vaultAddress && sharesDecimals\<close>. The function has no
  \<open>try\<close>: a rejected read rejects the call, after the setters already run have taken
  effect. The result is the error thrown, if any, and the state.
\<close>

definition loadMinAvailable ::
  "bool \<Rightarrow> MinAvailableReads \<Rightarrow> HelperMinState \<Rightarrow> js_error option \<times> HelperMinState" where
  "loadMinAvailable ready rd st =
     (if \<not> ready then (None, st)
      else
        (case previewLowLevelRebalanceBorrow_0 rd of
           Inl e \<Rightarrow> (Some e, st)
         | Inr (uu, dShares) \<Rightarrow>
             if dShares > 0 then
               let st1 = st\<lparr>minRedeem := Some 0\<rparr> in
               (case variableDebtToken_balanceOf rd of
                  Inl e \<Rightarrow> (Some e, st1)
                | Inr variableDebtTokenAmount \<Rightarrow>
                    (case convertToShares rd variableDebtTokenAmount of
                       Inl e \<Rightarrow> (Some e, st1)
                     | Inr variableDebtTokenShares \<Rightarrow>
                         let amountWithPrecision = bigint_div (variableDebtTokenShares * 2) 10000000;
                             rawMinMint = maxBigInt (bigint_div (dShares * 101) 100)
                                                    (dShares + 5 * amountWithPrecision)
                         in (None, st1\<lparr>minMint := Some rawMinMint\<rparr>)))
             else if dShares < 0 then
               let st1 = st\<lparr>minMint := Some 0\<rparr>;
                   absDelta = (if dShares < 0 then - dShares else dShares);
                   rawMinRedeem = bigint_div (absDelta * 10001) 10000
               in (None, st1\<lparr>minRedeem := Some rawMinRedeem\<rparr>)
             else (None, st\<lparr>minMint := Some 0, minRedeem := Some 0\<rparr>)))"

text \<open>
  \<open>loadMinAvailable\<close> of \<open>FlashLoanDepositWithdrawHandler\<close>: the same share amounts,
  converted to assets and padded by \<open>10001 / 10000\<close>.
\<close>

definition loadMinAvailable_depositWithdraw ::
  "bool \<Rightarrow> MinAvailableReads \<Rightarrow> DepositWithdrawMinState \<Rightarrow> js_error option \<times> DepositWithdrawMinState" where
  "loadMinAvailable_depositWithdraw ready rd st =
     (if \<not> ready then (None, st)
      else
        (case previewLowLevelRebalanceBorrow_0 rd of
           Inl e \<Rightarrow> (Some e, st)
         | Inr (uu, dShares) \<Rightarrow>
             if dShares > 0 then
               let st1 = st\<lparr>minWithdraw := Some 0\<rparr> in
               (case variableDebtToken_balanceOf rd of
                  Inl e \<Rightarrow> (Some e, st1)
                | Inr variableDebtTokenAmount \<Rightarrow>
                    (case convertToShares rd variableDebtTokenAmount of
                       Inl e \<Rightarrow> (Some e, st1)
                     | Inr variableDebtTokenShares \<Rightarrow>
                         let amountWithPrecision = bigint_div (variableDebtTokenShares * 2) 10000000;
                             rawMinMint = maxBigInt (bigint_div (dShares * 101) 100)
                                                    (dShares + 5 * amountWithPrecision)
                         in (case convertToAssets rd rawMinMint of
                               Inl e \<Rightarrow> (Some e, st1)
                             | Inr rawMinDeposit \<Rightarrow>
                                 let rawMinDepositWithPrecision = bigint_div (rawMinDeposit * 10001) 10000
                                 in (None, st1\<lparr>minDeposit := Some rawMinDepositWithPrecision\<rparr>))))
             else if dShares < 0 then
               let st1 = st\<lparr>minDeposit := Some 0\<rparr>;
                   absDelta = (if dShares < 0 then - dShares else dShares);
                   rawMinRedeem = bigint_div (absDelta * 10001) 10000
               in (case convertToAssets rd rawMinRedeem of
                     Inl e \<Rightarrow> (Some e, st1)
                   | Inr rawMinWithdraw \<Rightarrow>
                       let rawMinWithdrawWithPrecision = bigint_div (rawMinWithdraw * 10001) 10000
                       in (None, st1\<lparr>minWithdraw := Some rawMinWithdrawWithPrecision\<rparr>))
             else (None, st\<lparr>minDeposit := Some 0, minWithdraw := Some 0\<rparr>)))"


section \<open>The auction handler\<close>

datatype AuctionType = provide_collateral | provide_borrow

text \<open>
  \<open>auctionType\<close>:
  \<^verbatim>\<open>futureBorrowAssets && futureBorrowAssets > 0n ? 'provide_collateral' : 'provide_borrow'\<close>.
  The property is \<open>bigint | null\<close>; \<open>null\<close> and \<open>0n\<close> are falsy.
\<close>

definition auctionType :: "bigint option \<Rightarrow> AuctionType" where
  "auctionType futureBorrowAssets =
     (case futureBorrowAssets of
        None \<Rightarrow> provide_borrow
      | Some fb \<Rightarrow> if fb \<noteq> 0 \<and> fb > 0 then provide_collateral else provide_borrow)"

text \<open>
  The vault context keeps a token balance as the string \<open>formatUnits(raw, tokenDecimals)\<close>
  (ethers), which writes the exact decimal value \<open>raw / 10^tokenDecimals\<close>; the initial
  string is \<open>''\<close>. A handler reads it back with \<open>parseUnits(string, d)\<close>, which returns
  that value times \<open>10^d\<close> and throws when the string has more significant fractional
  digits than \<open>d\<close>, and on \<open>''\<close>. \<open>rawBalance\<close> is the integer last formatted
  (\<open>None\<close> for the initial string).
\<close>

record TokenBalance =
  rawBalance :: "bigint option"
  tokenDecimals :: nat

definition parseFormatted :: "TokenBalance \<Rightarrow> nat \<Rightarrow> bigint option" where
  "parseFormatted tb d =
     (case rawBalance tb of
        None \<Rightarrow> None
      | Some raw \<Rightarrow>
          if (raw * 10 ^ d) mod 10 ^ tokenDecimals tb = 0
          then Some ((raw * 10 ^ d) div 10 ^ tokenDecimals tb)
          else None)"

text \<open>
  \<open>getDecimalsForAuctionType\<close> and \<open>getBalanceForAuctionType\<close>: the decimals and the
  balance of the token the user provides.
\<close>

definition getDecimalsForAuctionType :: "bigint option \<Rightarrow> TokenBalance \<Rightarrow> TokenBalance \<Rightarrow> nat" where
  "getDecimalsForAuctionType futureBorrowAssets borrowTok collateralTok =
     (if auctionType futureBorrowAssets = provide_borrow then tokenDecimals borrowTok
      else tokenDecimals collateralTok)"

definition getBalanceForAuctionType ::
  "bigint option \<Rightarrow> TokenBalance \<Rightarrow> TokenBalance \<Rightarrow> TokenBalance" where
  "getBalanceForAuctionType futureBorrowAssets borrowTok collateralTok =
     (if auctionType futureBorrowAssets = provide_borrow then borrowTok else collateralTok)"

text \<open>
  \<open>loadMaxValue\<close> of the auction handler, as the value handed to \<open>setMaxValue\<close>;
  \<open>None\<close> when the function returns at its guard or \<open>parseUnits\<close> throws, so that
  \<open>maxValue\<close> stays \<open>null\<close> (the effect that calls it has just reset it).
  \<open>dec\<close> is the \<open>decimals\<close> state as the closure of the call sees it:
  \<^verbatim>\<open>const userBalance = parseUnits(getBalanceForAuctionType(), decimals);\<close>
\<close>

definition loadMaxValue_auction ::
  "bool \<Rightarrow> bigint option \<Rightarrow> bigint option \<Rightarrow> nat \<Rightarrow> TokenBalance \<Rightarrow> TokenBalance \<Rightarrow> bigint option" where
  "loadMaxValue_auction hasLens futureBorrowAssets futureCollateralAssets dec borrowTok collateralTok =
     (case (futureBorrowAssets, futureCollateralAssets) of
        (Some fb, Some fc) \<Rightarrow>
          if \<not> hasLens \<or> fb = 0 \<or> fc = 0 then None
          else
            (case parseFormatted (getBalanceForAuctionType futureBorrowAssets borrowTok collateralTok) dec of
               None \<Rightarrow> None
             | Some userBalance \<Rightarrow>
                 let vaultNeeds =
                       (if auctionType futureBorrowAssets = provide_borrow then
                          (if fb < 0 then - fb else 0)
                        else if auctionType futureBorrowAssets = provide_collateral then
                          (if fc > 0 then fc else 0)
                        else userBalance)
                 in Some (if userBalance < vaultNeeds then userBalance else vaultNeeds))
      | _ \<Rightarrow> None)"

text \<open>
  The two state variables of the auction handler that the maximum depends on:
  \<open>decimals\<close> (\<open>useState<number>(18)\<close>) and \<open>maxValue\<close> (\<open>useState(null)\<close>).
\<close>

record AuctionState =
  auctionDecimals :: nat
  auctionMaxValue :: "bigint option"

definition initialAuctionState :: AuctionState where
  "initialAuctionState = \<lparr>auctionDecimals = 18, auctionMaxValue = None\<rparr>"

text \<open>
  The effect of the auction handler that runs on mount and whenever the auction type,
  the token decimals, the balances or the pending amounts change:
  \<^verbatim>\<open>setDecimals(getDecimalsForAuctionType()); ... setMaxValue(null); loadMaxValue();\<close>
  \<open>loadMaxValue\<close> is the function of the render the effect belongs to, so it reads the
  \<open>decimals\<close> of the state before \<open>setDecimals\<close>; \<open>decimals\<close> is not among the
  dependencies of the effect.
\<close>

definition auctionEffect ::
  "bool \<Rightarrow> bigint option \<Rightarrow> bigint option \<Rightarrow> TokenBalance \<Rightarrow> TokenBalance \<Rightarrow> AuctionState \<Rightarrow> AuctionState" where
  "auctionEffect hasLens futureBorrowAssets futureCollateralAssets borrowTok collateralTok st =
     st\<lparr>auctionDecimals := getDecimalsForAuctionType futureBorrowAssets borrowTok collateralTok,
        auctionMaxValue :=
          loadMaxValue_auction hasLens futureBorrowAssets futureCollateralAssets (auctionDecimals st)
            borrowTok collateralTok\<rparr>"

text \<open>
  The \<open>disabled\<close> attribute of the submit button of the auction handler:
  \<^verbatim>\<open>loading || isApproving || amount === null ||
  (amount !== null && maxValue !== null && amount > maxValue)\<close>.
\<close>

definition submitDisabled :: "bool \<Rightarrow> bool \<Rightarrow> bigint option \<Rightarrow> bigint option \<Rightarrow> bool" where
  "submitDisabled loading isApproving amt maxValue =
     (loading \<or> isApproving \<or> amt = None
      \<or> (case (amt, maxValue) of (Some a, Some m) \<Rightarrow> a > m | _ \<Rightarrow> False))"



section \<open>Submitting a vault action\<close>

datatype ActionType = Deposit | Mint | Withdraw | Redeem

text \<open>\<open>ACTION_CONFIGS[actionType].needsApproval\<close> of \<open>ActionHandler\<close>.\<close>

fun needsApproval :: "ActionType \<Rightarrow> bool" where
  "needsApproval Deposit = True"
| "needsApproval Mint = True"
| "needsApproval Withdraw = False"
| "needsApproval Redeem = False"

text \<open>The action type as the string it is, and with its first letter in upper case.\<close>

fun actionName :: "ActionType \<Rightarrow> string" where
  "actionName Deposit = ''deposit''"
| "actionName Mint = ''mint''"
| "actionName Withdraw = ''withdraw''"
| "actionName Redeem = ''redeem''"

fun actionNameCapitalized :: "ActionType \<Rightarrow> string" where
  "actionNameCapitalized Deposit = ''Deposit''"
| "actionNameCapitalized Mint = ''Mint''"
| "actionNameCapitalized Withdraw = ''Withdraw''"
| "actionNameCapitalized Redeem = ''Redeem''"

text \<open>
  The transactions a handler sends through the signer. \<open>ApproveTx t n\<close> is
  \<open>approve(spender, n)\<close> on the token \<open>t\<close> (on the vault itself for \<open>Shares\<close>);
  \<open>VaultTx a b n g\<close> is the vault method of action \<open>a\<close>, on the borrow side when
  \<open>b\<close>, with amount \<open>n\<close> and gas limit \<open>g\<close>; \<open>SafeTx a b n bound g\<close> is the
  corresponding method of the safe helper; \<open>RebalanceTx t n hint g\<close> is
  \<open>executeLowLevelRebalance...\<close> of kind \<open>t\<close>.
\<close>

datatype tx =
    ApproveTx TokenType bigint
  | VaultTx ActionType bool bigint bigint
  | SafeTx ActionType bool bigint bigint bigint
  | RebalanceTx TokenType bigint "bool option" bigint

text \<open>
  The state of a submitting component: its React state (\<open>loading\<close>, \<open>error\<close>,
  \<open>success\<close> and the text of the amount input) and, for the record, the transactions
  sent so far and the messages written with \<open>console.error\<close>.
\<close>

record SubmitState =
  loading :: bool
  error :: "string option"
  success :: "string option"
  amountText :: string
  sent :: "tx list"
  console :: "string list"

text \<open>The nullable handles a submitting component reads from the two contexts.\<close>

record SignerHandles = Handles +
  hasVault :: bool
  hasBorrowToken :: bool
  hasCollateralToken :: bool
  hasVaultAddress :: bool
  hasHelperAddress :: bool
  hasSafeHelperBorrow :: bool
  hasSafeHelperCollateral :: bool

definition hasToken :: "SignerHandles \<Rightarrow> bool \<Rightarrow> bool" where
  "hasToken h isBorrow = (if isBorrow then hasBorrowToken h else hasCollateralToken h)"

definition hasTokenLens :: "SignerHandles \<Rightarrow> bool \<Rightarrow> bool" where
  "hasTokenLens h isBorrow = (if isBorrow then hasBorrowTokenLens h else hasCollateralTokenLens h)"

text \<open>
  What the chain, the signer and the library answer during one submission. A read that
  is made on the borrow or on the collateral variant of a method takes \<open>isBorrow\<close>.
  A send resolves to the response whose \<open>wait()\<close> is awaited next. \<open>parseUnits\<close>
  (ethers), \<open>applyGasSlippage\<close> and \<open>wrapEth\<close> (\<open>@/utils\<close>, not among the sources)
  are parameters; \<open>wrapEth\<close> is handed \<open>setSuccess\<close> and
  \<open>setError\<close>, so it maps the state and may throw. \<open>tokenIsWETH\<close> is
  \<open>isWETHAddress(tokenAddress, currentNetwork)\<close>. The slippage fields stand for the
  floating-point part of the safe handler: whether \<open>parseFloat(slippageTolerance)\<close> is
  a positive number, and the integers \<open>Math.floor((100 - slippagePercent) * 100)\<close> and
  \<open>Math.floor((100 + slippagePercent) * 100)\<close>.
\<close>

record SubmitEnv =
  parseUnits :: "string \<Rightarrow> bigint promise"
  applyGasSlippage :: "bigint \<Rightarrow> bigint"
  wrapEth :: "bigint \<Rightarrow> bigint \<Rightarrow> SubmitState \<Rightarrow> js_error option \<times> SubmitState"
  tokenIsWETH :: bool
  tokenSymbol :: string
  sharesSymbol :: string
  vaultLens_previewMint :: "bool \<Rightarrow> bigint \<Rightarrow> bigint promise"
  tokenLens_balanceOf :: "bigint promise"
  tokenLens_balanceOf_afterWrap :: "bigint promise"
  publicProvider_getBalance :: "bigint promise"
  tokenLens_allowance :: "bigint promise"
  token_approve :: "bigint \<Rightarrow> tx_response promise"
  vaultLens_estimateGas :: "ActionType \<Rightarrow> bool \<Rightarrow> bigint \<Rightarrow> bigint promise"
  vault_send :: "ActionType \<Rightarrow> bool \<Rightarrow> bigint \<Rightarrow> bigint \<Rightarrow> tx_response promise"
  vaultLens_balanceOf_user :: "bigint promise"
  vaultLens_maxRedeem :: "bool \<Rightarrow> bigint promise"
  vaultLens_maxWithdraw :: "bool \<Rightarrow> bigint promise"
  slippageValid :: bool
  slippageFactorDown :: bigint
  slippageFactorUp :: bigint
  vaultLens_preview :: "ActionType \<Rightarrow> bool \<Rightarrow> bigint \<Rightarrow> bigint promise"
  vaultLens_allowance_helper :: "bigint promise"
  tokenLens_allowance_helper :: "bigint promise"
  vault_approve :: "bigint \<Rightarrow> tx_response promise"
  token_approve_helper :: "bigint \<Rightarrow> tx_response promise"
  safeHelper_estimateGas :: "ActionType \<Rightarrow> bool \<Rightarrow> bigint \<Rightarrow> bigint \<Rightarrow> bigint promise"
  safeHelper_send :: "ActionType \<Rightarrow> bool \<Rightarrow> bigint \<Rightarrow> bigint \<Rightarrow> bigint \<Rightarrow> tx_response promise"

definition logError :: "string \<Rightarrow> 'a SubmitState_scheme \<Rightarrow> 'a SubmitState_scheme" where
  "logError msg st = st\<lparr>console := console st @ [msg]\<rparr>"

text \<open>
  \<open>handleWrapIfNeeded(needed, balance)\<close>, the same in \<open>ActionHandler\<close> and in the
  safe handler. The result is the boolean returned, or the error thrown, and the state.
\<close>

definition handleWrapIfNeeded ::
  "SignerHandles \<Rightarrow> SubmitEnv \<Rightarrow> ActionType \<Rightarrow> bool \<Rightarrow> bigint \<Rightarrow> bigint \<Rightarrow> SubmitState
     \<Rightarrow> bool promise \<times> SubmitState" where
  "handleWrapIfNeeded h env act isBorrow needed balance st =
     (if balance \<ge> needed then (Inr True, st)
      else if \<not> hasCurrentNetwork h then
        (Inr False, logError ''Wrong network.'' (st\<lparr>error := Some ''Wrong network.''\<rparr>))
      else if \<not> tokenIsWETH env then
        (Inr False, logError (''Not enough tokens to '' @ actionName act)
                      (st\<lparr>error := Some (''Not enough tokens to '' @ actionName act @ ''.'')\<rparr>))
      else if \<not> hasPublicProvider h \<or> \<not> hasToken h isBorrow then (Inr False, st)
      else
        (case publicProvider_getBalance env of
           Inl e \<Rightarrow> (Inl e, st)
         | Inr ethBal \<Rightarrow>
             let wethMissing = needed - balance in
             (case wrapEth env wethMissing ethBal st of
                (Some e, st1) \<Rightarrow> (Inl e, st1)
              | (None, st1) \<Rightarrow>
                  (case tokenLens_balanceOf_afterWrap env of
                     Inl e \<Rightarrow> (Inl e, st1)
                   | Inr newBalance \<Rightarrow>
                       if newBalance < needed then
                         (Inr False, logError ''Not enough WETH after wrapping''
                                       (st1\<lparr>error := Some ''Not enough WETH after wrapping.''\<rparr>))
                       else (Inr True, st1)))))"

text \<open>\<open>handleApproval(needed)\<close> of \<open>ActionHandler\<close>.\<close>

definition handleApproval ::
  "SignerHandles \<Rightarrow> SubmitEnv \<Rightarrow> bool \<Rightarrow> bigint \<Rightarrow> SubmitState \<Rightarrow> bool promise \<times> SubmitState" where
  "handleApproval h env isBorrow needed st =
     (if \<not> hasToken h isBorrow \<or> \<not> hasTokenLens h isBorrow \<or> \<not> hasAddress h then (Inr False, st)
      else
        (case tokenLens_allowance env of
           Inl e \<Rightarrow> (Inl e, st)
         | Inr currentAllowance \<Rightarrow>
             if currentAllowance < needed then
               (case token_approve env needed of
                  Inl e \<Rightarrow> (Inl e, st)
                | Inr response \<Rightarrow>
                    let st1 = st\<lparr>sent := sent st @ [ApproveTx (if isBorrow then Borrow else Collateral) needed]\<rparr> in
                    (case response of
                       Some e \<Rightarrow> (Inl e, st1)
                     | None \<Rightarrow>
                         (Inr True, st1\<lparr>success := Some (''Successfully approved '' @ tokenSymbol env @ ''.'')\<rparr>)))
             else (Inr True, st\<lparr>success := Some (''Already approved '' @ tokenSymbol env @ ''.'')\<rparr>)))"

text \<open>
  \<open>executeVaultMethod(parsedAmount)\<close> of \<open>ActionHandler\<close>: the four branches differ
  only in the vault method, which the transaction records. The result is the error
  thrown, if any, and the state.
\<close>

definition executeVaultMethod ::
  "SignerHandles \<Rightarrow> SubmitEnv \<Rightarrow> ActionType \<Rightarrow> bool \<Rightarrow> bigint \<Rightarrow> SubmitState
     \<Rightarrow> js_error option \<times> SubmitState" where
  "executeVaultMethod h env act isBorrow parsedAmount st =
     (if \<not> hasVault h \<or> \<not> hasVaultLens h \<or> \<not> hasAddress h then (None, st)
      else
        (case vaultLens_estimateGas env act isBorrow parsedAmount of
           Inl e \<Rightarrow> (Some e, st)
         | Inr estimatedGas \<Rightarrow>
             (case vault_send env act isBorrow parsedAmount (applyGasSlippage env estimatedGas) of
                Inl e \<Rightarrow> (Some e, st)
              | Inr response \<Rightarrow>
                  (response,
                   st\<lparr>sent := sent st @ [VaultTx act isBorrow parsedAmount (applyGasSlippage env estimatedGas)]\<rparr>))))"

text \<open>
  \<open>refetchMaxBeforeTx()\<close>, the same in both handlers. It catches what its reads throw;
  \<open>None\<close> is the \<open>undefined\<close> it then returns.
\<close>

definition refetchMaxBeforeTx ::
  "SignerHandles \<Rightarrow> SubmitEnv \<Rightarrow> ActionType \<Rightarrow> bool \<Rightarrow> SubmitState \<Rightarrow> bigint option \<times> SubmitState" where
  "refetchMaxBeforeTx h env act isBorrow st =
     (if \<not> hasVaultLens h \<or> \<not> hasAddress h then (Some 0, st)
      else if act = Redeem then
        (case vaultLens_balanceOf_user env of
           Inl e \<Rightarrow> (None, logError ''Error refetching max amount before tx:'' st)
         | Inr userSharesBalance \<Rightarrow>
             (case vaultLens_maxRedeem env isBorrow of
                Inl e \<Rightarrow> (None, logError ''Error refetching max amount before tx:'' st)
              | Inr freshMaxRedeem \<Rightarrow>
                  (Some (if userSharesBalance < freshMaxRedeem then userSharesBalance else freshMaxRedeem),
                   st)))
      else if act = Withdraw then
        (case vaultLens_maxWithdraw env isBorrow of
           Inl e \<Rightarrow> (None, logError ''Error refetching max amount before tx:'' st)
         | Inr freshMaxWithdraw \<Rightarrow> (Some freshMaxWithdraw, st))
      else (None, logError ''Invalid action type (expected redeem or withdraw):'' st))"

text \<open>
  The approval block of \<open>handleSubmit\<close> in \<open>ActionHandler\<close>
  (\<open>if (config.needsApproval) { ... }\<close>): \<open>Inr False\<close> when one of its guards makes
  \<open>handleSubmit\<close> return, \<open>Inr True\<close> when \<open>handleSubmit\<close> goes on.
\<close>

definition approvalPhase ::
  "SignerHandles \<Rightarrow> SubmitEnv \<Rightarrow> ActionType \<Rightarrow> bool \<Rightarrow> bigint \<Rightarrow> SubmitState
     \<Rightarrow> bool promise \<times> SubmitState" where
  "approvalPhase h env act isBorrow parsedAmount st =
     (if \<not> needsApproval act then (Inr True, st)
      else if \<not> hasPublicProvider h \<or> \<not> hasTokenLens h isBorrow \<or> \<not> hasToken h isBorrow
              \<or> \<not> hasVaultLens h then (Inr False, st)
      else
        (case (if act = Mint then vaultLens_previewMint env isBorrow parsedAmount else Inr parsedAmount) of
           Inl e \<Rightarrow> (Inl e, st)
         | Inr tokensNeeded \<Rightarrow>
             (case tokenLens_balanceOf env of
                Inl e \<Rightarrow> (Inl e, st)
              | Inr balance \<Rightarrow>
                  (case handleWrapIfNeeded h env act isBorrow tokensNeeded balance st of
                     (Inl e, st1) \<Rightarrow> (Inl e, st1)
                   | (Inr hasEnough, st1) \<Rightarrow>
                       if \<not> hasEnough then (Inr False, st1)
                       else handleApproval h env isBorrow tokensNeeded st1))))"

text \<open>
  The re-check of the maximum and the call of the vault method in \<open>handleSubmit\<close> of
  \<open>ActionHandler\<close> (\<open>if (isMaxSelected && ...) { ... } else { ... }\<close>): \<open>Inr False\<close>
  when the re-check makes \<open>handleSubmit\<close> return, \<open>Inr True\<close> when the vault method
  has run.
\<close>

definition executePhase ::
  "SignerHandles \<Rightarrow> SubmitEnv \<Rightarrow> ActionType \<Rightarrow> bool \<Rightarrow> bool \<Rightarrow> bigint \<Rightarrow> SubmitState
     \<Rightarrow> bool promise \<times> SubmitState" where
  "executePhase h env act isBorrow isMaxSelected parsedAmount st =
     (if isMaxSelected \<and> (act = Redeem \<or> act = Withdraw) then
        (case refetchMaxBeforeTx h env act isBorrow st of
           (None, st2) \<Rightarrow>
             (Inr False,
              logError ''Error refetching max amount before tx.''
                (st2\<lparr>error := Some ''Error refetching max amount before tx.''\<rparr>))
         | (Some maxBeforeTx, st2) \<Rightarrow>
             if maxBeforeTx = 0 then
               (Inr False,
                logError ''Error refetching max amount before tx.''
                  (st2\<lparr>error := Some ''Error refetching max amount before tx.''\<rparr>))
             else if maxBeforeTx < parsedAmount then
               (Inr False,
                logError ''Amount higher than available''
                  (st2\<lparr>error := Some ''Amount higher than available.''\<rparr>))
             else
               (case executeVaultMethod h env act isBorrow maxBeforeTx st2 of
                  (Some e, st3) \<Rightarrow> (Inl e, st3)
                | (None, st3) \<Rightarrow> (Inr True, st3)))
      else
        (case executeVaultMethod h env act isBorrow parsedAmount st of
           (Some e, st3) \<Rightarrow> (Inl e, st3)
         | (None, st3) \<Rightarrow> (Inr True, st3)))"

text \<open>
  The body of the \<open>try\<close> block of \<open>handleSubmit\<close> in \<open>ActionHandler\<close>. The result is
  the error thrown (\<open>None\<close> when the block completes or returns early) and the state
  at that point. The two refreshes that follow a confirmed transaction only touch the
  vault context and catch their own errors.
\<close>

definition handleSubmit_try ::
  "SignerHandles \<Rightarrow> SubmitEnv \<Rightarrow> ActionType \<Rightarrow> bool \<Rightarrow> bool \<Rightarrow> SubmitState
     \<Rightarrow> js_error option \<times> SubmitState" where
  "handleSubmit_try h env act isBorrow isMaxSelected st =
     (case parseUnits env (amountText st) of
        Inl e \<Rightarrow> (Some e, st)
      | Inr parsedAmount \<Rightarrow>
          (case approvalPhase h env act isBorrow parsedAmount st of
             (Inl e, st1) \<Rightarrow> (Some e, st1)
           | (Inr proceed, st1) \<Rightarrow>
               if \<not> proceed then (None, st1)
               else
                 (case executePhase h env act isBorrow isMaxSelected parsedAmount st1 of
                    (Inl e, st4) \<Rightarrow> (Some e, st4)
                  | (Inr executed, st4) \<Rightarrow>
                      if \<not> executed then (None, st4)
                      else
                        (None, st4\<lparr>amountText := [],
                                   success := Some (actionNameCapitalized act @ '' successful!'')\<rparr>))))"

text \<open>
  \<open>handleSubmit\<close> of \<open>ActionHandler\<close>. The guard on \<open>vault\<close> and \<open>address\<close> returns
  before the \<open>try\<close>, so \<open>finally\<close> does not run for it.
\<close>

definition handleSubmit ::
  "SignerHandles \<Rightarrow> SubmitEnv \<Rightarrow> ActionType \<Rightarrow> bool \<Rightarrow> bool \<Rightarrow> SubmitState \<Rightarrow> SubmitState" where
  "handleSubmit h env act isBorrow isMaxSelected st =
     (let st0 = st\<lparr>loading := True, error := None, success := None\<rparr> in
      if \<not> hasVault h \<or> \<not> hasAddress h then st0
      else
        (case handleSubmit_try h env act isBorrow isMaxSelected st0 of
           (None, st1) \<Rightarrow> st1\<lparr>loading := False\<rparr>
         | (Some err, st1) \<Rightarrow>
             (if isUserRejected err then st1\<lparr>error := Some ''Transaction canceled by user.''\<rparr>
              else logError (''Failed to '' @ actionName act @ '': '')
                     (st1\<lparr>error := Some (''Failed to '' @ actionName act @ ''.'')\<rparr>))
             \<lparr>loading := False\<rparr>))"


section \<open>Submitting through the safe helper\<close>

text \<open>
  \<open>handleApproval(needed, approveShares)\<close> of the safe handler: the spender is the
  helper; shares are approved on the vault, tokens on the token.
\<close>

definition handleApproval_safe ::
  "SignerHandles \<Rightarrow> SubmitEnv \<Rightarrow> bool \<Rightarrow> bigint \<Rightarrow> bool \<Rightarrow> SubmitState \<Rightarrow> bool promise \<times> SubmitState" where
  "handleApproval_safe h env isBorrow needed approveShares st =
     (if \<not> hasAddress h \<or> \<not> hasHelperAddress h then (Inr False, st)
      else if approveShares then
        (if \<not> hasVault h \<or> \<not> hasVaultLens h then (Inr False, st)
         else
           (case vaultLens_allowance_helper env of
              Inl e \<Rightarrow> (Inl e, st)
            | Inr currentAllowance \<Rightarrow>
                if currentAllowance < needed then
                  (case vault_approve env needed of
                     Inl e \<Rightarrow> (Inl e, st)
                   | Inr response \<Rightarrow>
                       let st1 = st\<lparr>sent := sent st @ [ApproveTx Shares needed]\<rparr> in
                       (case response of
                          Some e \<Rightarrow> (Inl e, st1)
                        | None \<Rightarrow>
                            (Inr True,
                             st1\<lparr>success := Some (''Successfully approved '' @ sharesSymbol env @ ''.'')\<rparr>)))
                else (Inr True, st\<lparr>success := Some (''Already approved '' @ sharesSymbol env @ ''.'')\<rparr>)))
      else
        (if \<not> hasToken h isBorrow \<or> \<not> hasTokenLens h isBorrow then (Inr False, st)
         else
           (case tokenLens_allowance_helper env of
              Inl e \<Rightarrow> (Inl e, st)
            | Inr currentAllowance \<Rightarrow>
                if currentAllowance < needed then
                  (case token_approve_helper env needed of
                     Inl e \<Rightarrow> (Inl e, st)
                   | Inr response \<Rightarrow>
                       let st1 = st\<lparr>sent := sent st @ [ApproveTx (if isBorrow then Borrow else Collateral) needed]\<rparr> in
                       (case response of
                          Some e \<Rightarrow> (Inl e, st1)
                        | None \<Rightarrow>
                            (Inr True,
                             st1\<lparr>success := Some (''Successfully approved '' @ tokenSymbol env
                                                     @ '' for Safe Helper.'')\<rparr>)))
                else (Inr True, st\<lparr>success := Some (''Already approved '' @ tokenSymbol env @ ''.'')\<rparr>))))"

text \<open>
  \<open>calculateSlippageBound(parsedAmount)\<close>: the preview of the action, scaled down for
  deposit and redeem and up for mint and withdraw; \<open>None\<close> is the \<open>null\<close> returned at
  a guard or after a caught error.
\<close>

definition calculateSlippageBound ::
  "SignerHandles \<Rightarrow> SubmitEnv \<Rightarrow> ActionType \<Rightarrow> bool \<Rightarrow> bigint \<Rightarrow> SubmitState
     \<Rightarrow> bigint option \<times> SubmitState" where
  "calculateSlippageBound h env act isBorrow parsedAmount st =
     (if \<not> hasVaultLens h \<or> \<not> hasHelperAddress h then (None, st)
      else if \<not> slippageValid env then (None, st)
      else
        (case vaultLens_preview env act isBorrow parsedAmount of
           Inl e \<Rightarrow> (None, logError ''Error calculating slippage bound:'' st)
         | Inr expected \<Rightarrow>
             (Some (bigint_div
                      (expected * (if act = Deposit \<or> act = Redeem then slippageFactorDown env
                                   else slippageFactorUp env))
                      10000),
              st)))"

text \<open>\<open>executeSafeMethod(parsedAmount, bound)\<close>.\<close>

definition executeSafeMethod ::
  "SignerHandles \<Rightarrow> SubmitEnv \<Rightarrow> ActionType \<Rightarrow> bool \<Rightarrow> bigint \<Rightarrow> bigint \<Rightarrow> SubmitState
     \<Rightarrow> js_error option \<times> SubmitState" where
  "executeSafeMethod h env act isBorrow parsedAmount bound st =
     (if \<not> hasAddress h then (None, st)
      else if isBorrow \<and> \<not> hasSafeHelperBorrow h then
        (None, logError ''Safe helper for borrow not initialized. Please ensure you are connected to a supported network.'' st)
      else if \<not> isBorrow \<and> \<not> hasSafeHelperCollateral h then
        (None, logError ''Safe helper for collateral not initialized. Please ensure you are connected to a supported network.'' st)
      else
        (case safeHelper_estimateGas env act isBorrow parsedAmount bound of
           Inl e \<Rightarrow> (Some e, st)
         | Inr estimatedGas \<Rightarrow>
             (case safeHelper_send env act isBorrow parsedAmount bound (applyGasSlippage env estimatedGas) of
                Inl e \<Rightarrow> (Some e, st)
              | Inr response \<Rightarrow>
                  (response,
                   st\<lparr>sent := sent st @ [SafeTx act isBorrow parsedAmount bound
                                             (applyGasSlippage env estimatedGas)]\<rparr>))))"

text \<open>
  The approval block of \<open>handleSubmit\<close> in the safe handler; every action needs an
  approval there (\<open>SAFE_ACTION_CONFIGS\<close>).
\<close>

definition approvalPhase_safe ::
  "SignerHandles \<Rightarrow> SubmitEnv \<Rightarrow> ActionType \<Rightarrow> bool \<Rightarrow> bigint \<Rightarrow> bigint \<Rightarrow> SubmitState
     \<Rightarrow> bool promise \<times> SubmitState" where
  "approvalPhase_safe h env act isBorrow parsedAmount slippageBound st =
     (if \<not> hasPublicProvider h \<or> \<not> hasVaultLens h then (Inr False, st)
      else if act = Withdraw \<or> act = Redeem then
        (let sharesNeeded = (if act = Withdraw then slippageBound else parsedAmount)
         in handleApproval_safe h env isBorrow sharesNeeded True st)
      else if \<not> hasTokenLens h isBorrow \<or> \<not> hasToken h isBorrow then (Inr False, st)
      else
        (let tokensNeeded = (if act = Mint then slippageBound else parsedAmount) in
         (case tokenLens_balanceOf env of
            Inl e \<Rightarrow> (Inl e, st)
          | Inr balance \<Rightarrow>
              (case handleWrapIfNeeded h env act isBorrow tokensNeeded balance st of
                 (Inl e, st1) \<Rightarrow> (Inl e, st1)
               | (Inr hasEnough, st1) \<Rightarrow>
                   if \<not> hasEnough then (Inr False, st1)
                   else handleApproval_safe h env isBorrow tokensNeeded False st1))))"

text \<open>
  The re-check of the maximum in the safe handler: \<open>None\<close> when it makes
  \<open>handleSubmit\<close> return, otherwise the final amount and its slippage bound.
\<close>

definition maxPhase_safe ::
  "SignerHandles \<Rightarrow> SubmitEnv \<Rightarrow> ActionType \<Rightarrow> bool \<Rightarrow> bool \<Rightarrow> bigint \<Rightarrow> bigint \<Rightarrow> SubmitState
     \<Rightarrow> (bigint \<times> bigint) option \<times> SubmitState" where
  "maxPhase_safe h env act isBorrow isMaxSelected parsedAmount slippageBound st =
     (if isMaxSelected \<and> (act = Redeem \<or> act = Withdraw) then
        (case refetchMaxBeforeTx h env act isBorrow st of
           (None, st2) \<Rightarrow>
             (None,
              logError ''Error refetching max amount before tx.''
                (st2\<lparr>error := Some ''Error refetching max amount before tx.''\<rparr>))
         | (Some maxBeforeTx, st2) \<Rightarrow>
             if maxBeforeTx = 0 then
               (None,
                logError ''Error refetching max amount before tx.''
                  (st2\<lparr>error := Some ''Error refetching max amount before tx.''\<rparr>))
             else if maxBeforeTx < parsedAmount then
               (None,
                logError ''Amount higher than available''
                  (st2\<lparr>error := Some ''Amount higher than available.''\<rparr>))
             else
               (case calculateSlippageBound h env act isBorrow maxBeforeTx st2 of
                  (None, st3) \<Rightarrow> (None, st3\<lparr>error := Some ''Error calculating slippage bound.''\<rparr>)
                | (Some adjustedSlippageBound, st3) \<Rightarrow> (Some (maxBeforeTx, adjustedSlippageBound), st3)))
      else (Some (parsedAmount, slippageBound), st))"

definition handleSubmit_safe_try ::
  "SignerHandles \<Rightarrow> SubmitEnv \<Rightarrow> ActionType \<Rightarrow> bool \<Rightarrow> bool \<Rightarrow> SubmitState
     \<Rightarrow> js_error option \<times> SubmitState" where
  "handleSubmit_safe_try h env act isBorrow isMaxSelected st =
     (case parseUnits env (amountText st) of
        Inl e \<Rightarrow> (Some e, st)
      | Inr parsedAmount \<Rightarrow>
          if \<not> slippageValid env then (None, st\<lparr>error := Some ''Invalid slippage tolerance.''\<rparr>)
          else
            (case calculateSlippageBound h env act isBorrow parsedAmount st of
               (None, st1) \<Rightarrow> (None, st1\<lparr>error := Some ''Error calculating slippage bound.''\<rparr>)
             | (Some slippageBound, st1) \<Rightarrow>
                 (case approvalPhase_safe h env act isBorrow parsedAmount slippageBound st1 of
                    (Inl e, st2) \<Rightarrow> (Some e, st2)
                  | (Inr proceed, st2) \<Rightarrow>
                      if \<not> proceed then (None, st2)
                      else
                        (case maxPhase_safe h env act isBorrow isMaxSelected parsedAmount slippageBound st2 of
                           (None, st3) \<Rightarrow> (None, st3)
                         | (Some (finalAmount, finalSlippageBound), st3) \<Rightarrow>
                             (case executeSafeMethod h env act isBorrow finalAmount finalSlippageBound st3 of
                                (Some e, st4) \<Rightarrow> (Some e, st4)
                              | (None, st4) \<Rightarrow>
                                  (None, st4\<lparr>amountText := [],
                                             success := Some (actionNameCapitalized act @ '' successful!'')\<rparr>))))))"

text \<open>\<open>handleSubmit\<close> of the safe handler.\<close>

definition handleSubmit_safe ::
  "SignerHandles \<Rightarrow> SubmitEnv \<Rightarrow> ActionType \<Rightarrow> bool \<Rightarrow> bool \<Rightarrow> SubmitState \<Rightarrow> SubmitState" where
  "handleSubmit_safe h env act isBorrow isMaxSelected st =
     (let st0 = st\<lparr>loading := True, error := None, success := None\<rparr> in
      if \<not> hasVault h \<or> \<not> hasAddress h then
        st0\<lparr>error := Some ''Vault or address not configured.'', loading := False\<rparr>
      else if \<not> (if isBorrow then hasSafeHelperBorrow h else hasSafeHelperCollateral h) then
        st0\<lparr>error := Some ''Safe helper not initialized. Please ensure you are connected to a supported network.'',
            loading := False\<rparr>
      else
        (case handleSubmit_safe_try h env act isBorrow isMaxSelected st0 of
           (None, st1) \<Rightarrow> st1\<lparr>loading := False\<rparr>
         | (Some err, st1) \<Rightarrow>
             (if isUserRejected err then st1\<lparr>error := Some ''Transaction canceled by user.''\<rparr>
              else logError (''Failed to '' @ actionName act @ '': '')
                     (st1\<lparr>error := Some (''Failed to '' @ actionName act @ ''.'')\<rparr>))
             \<lparr>loading := False\<rparr>))"


section \<open>Submitting a low-level rebalance\<close>

text \<open>
  The state of the low-level rebalance handler: the common part (\<open>amountText\<close> is its
  \<open>inputValue\<close>) and its own. \<open>amountSigned\<close> is the state variable \<open>amount\<close>, the
  parsed input multiplied by the sign of the action.
\<close>

record RebalanceState = SubmitState +
  amountSigned :: "bigint option"
  approvalError :: "string option"
  isApproving :: bool
  previewData :: "PreviewData option"
  maxValue :: "bigint option"

text \<open>
  What the chain and the signer answer during one rebalance. \<open>rb_allowance\<close>,
  \<open>rb_approve\<close> and \<open>rb_symbol\<close> are per token; the previews resolve to pairs whose
  second component is the share delta; \<open>rb_send t n hint g\<close> is
  \<open>executeLowLevelRebalanceShares(n)\<close> for \<open>t = Shares\<close> and the borrow or collateral
  method with its hint otherwise. The last three fields are what the \<open>loadMaxValue\<close>
  started after a successful rebalance reads.
\<close>

record RebalanceEnv =
  rb_applyGasSlippage :: "bigint \<Rightarrow> bigint"
  rb_allowance :: "TokenType \<Rightarrow> bigint promise"
  rb_approve :: "TokenType \<Rightarrow> bigint \<Rightarrow> tx_response promise"
  rb_symbol :: "TokenType \<Rightarrow> string"
  rb_previewBorrow :: "bigint \<Rightarrow> (bigint \<times> bigint) promise"
  rb_previewCollateral :: "bigint \<Rightarrow> (bigint \<times> bigint) promise"
  rb_estimateGas :: "TokenType \<Rightarrow> bigint \<Rightarrow> bool option \<Rightarrow> bigint promise"
  rb_send :: "TokenType \<Rightarrow> bigint \<Rightarrow> bool option \<Rightarrow> bigint \<Rightarrow> tx_response promise"
  rb_maxReads :: "MaxRebalanceReads option"
  rb_borrowBal :: "bigint option"
  rb_collateralBal :: "bigint option"

text \<open>\<open>getTokenMetadata(tokenType).token\<close> is set.\<close>

definition hasMetadataToken :: "SignerHandles \<Rightarrow> TokenType \<Rightarrow> bool" where
  "hasMetadataToken h tt =
     (if tt = Collateral then hasCollateralToken h
      else if tt = Borrow then hasBorrowToken h
      else False)"

text \<open>
  The \<open>for (const item of provide)\<close> loop of \<open>checkAndApproveRequiredAssets\<close>, with
  its two flags \<open>(anyApproved, allAlreadyApproved)\<close>.
\<close>

fun approveLoop ::
  "SignerHandles \<Rightarrow> RebalanceEnv \<Rightarrow> Leg list \<Rightarrow> bool \<times> bool \<Rightarrow> RebalanceState
     \<Rightarrow> (bool \<times> bool) promise \<times> RebalanceState" where
  "approveLoop h env [] flags st = (Inr flags, st)"
| "approveLoop h env (item # rest) flags st =
     (if tokenType item = Shares then approveLoop h env rest flags st
      else if \<not> hasMetadataToken h (tokenType item) then approveLoop h env rest flags st
      else
        (case rb_allowance env (tokenType item) of
           Inl e \<Rightarrow> (Inl e, st)
         | Inr currentAllowance \<Rightarrow>
             if currentAllowance < amount item then
               (case rb_approve env (tokenType item) (amount item) of
                  Inl e \<Rightarrow> (Inl e, st)
                | Inr response \<Rightarrow>
                    let st1 = st\<lparr>sent := sent st @ [ApproveTx (tokenType item) (amount item)]\<rparr> in
                    (case response of
                       Some e \<Rightarrow> (Inl e, st1)
                     | None \<Rightarrow>
                         approveLoop h env rest (True, False)
                           (st1\<lparr>success := Some (''Successfully approved ''
                                                   @ rb_symbol env (tokenType item) @ ''.'')\<rparr>)))
             else approveLoop h env rest flags st))"

text \<open>
  \<open>checkAndApproveRequiredAssets\<close>: it catches what the loop throws, so it never
  throws itself.
\<close>

definition checkAndApproveRequiredAssets ::
  "SignerHandles \<Rightarrow> RebalanceEnv \<Rightarrow> TokenType \<Rightarrow> RebalanceState \<Rightarrow> RebalanceState" where
  "checkAndApproveRequiredAssets h env rebalanceType st =
     (if previewData st = None \<or> \<not> hasAddress h \<or> \<not> hasVaultAddress h then st
      else
        let st1 = st\<lparr>isApproving := True, approvalError := None\<rparr>;
            prov = provide (getReceiveAndProvide (previewData st1) (amountSigned st1) rebalanceType);
            st2 =
              (if prov = [] then st1
               else
                 (case approveLoop h env prov (False, True) st1 of
                    (Inr (anyApproved, allAlreadyApproved), st') \<Rightarrow>
                      if allAlreadyApproved \<and> \<not> anyApproved then
                        st'\<lparr>success := Some ''All tokens already approved.''\<rparr>
                      else st'
                  | (Inl err, st') \<Rightarrow>
                      if isUserRejected err then st'\<lparr>approvalError := Some ''Approval canceled by user.''\<rparr>
                      else logError ''Failed to approve required tokens:''
                             (st'\<lparr>approvalError := Some ''Failed to approve required tokens.''\<rparr>)))
        in st2\<lparr>isApproving := False\<rparr>)"

text \<open>
  The part of the \<open>try\<close> block that picks the contract method: \<open>Inr None\<close> when the
  share delta of the preview is missing and \<open>handleSubmit\<close> returns, otherwise the
  hint and the estimated gas.
\<close>

definition prepareRebalance ::
  "RebalanceEnv \<Rightarrow> TokenType \<Rightarrow> bigint \<Rightarrow> RebalanceState
     \<Rightarrow> (bool option \<times> bigint) option promise \<times> RebalanceState" where
  "prepareRebalance env rebalanceType amt st =
     (if rebalanceType = Shares then
        (case rb_estimateGas env Shares amt None of
           Inl e \<Rightarrow> (Inl e, st)
         | Inr estimatedGas \<Rightarrow> (Inr (Some (None, estimatedGas)), st))
      else
        (case (if rebalanceType = Borrow then rb_previewBorrow env amt else rb_previewCollateral env amt) of
           Inl e \<Rightarrow> (Inl e, st)
         | Inr (uu, dShares) \<Rightarrow>
             if dShares = 0 then
               (Inr None,
                logError ''Failed to preview leveraged tokens delta''
                  (st\<lparr>error := Some ''Failed to preview leveraged tokens delta''\<rparr>))
             else
               let isSharesPositiveHint = (dShares \<ge> 0) in
               (case rb_estimateGas env rebalanceType amt (Some isSharesPositiveHint) of
                  Inl e \<Rightarrow> (Inl e, st)
                | Inr estimatedGas \<Rightarrow> (Inr (Some (Some isSharesPositiveHint, estimatedGas)), st))))"

text \<open>
  The body of the \<open>try\<close> block of \<open>handleSubmit\<close> in the low-level rebalance handler,
  for the non-zero \<open>amount\<close> that its guard has checked.
\<close>

definition handleSubmit_rebalance_try ::
  "SignerHandles \<Rightarrow> RebalanceEnv \<Rightarrow> TokenType \<Rightarrow> RebalanceActionType \<Rightarrow> bigint \<Rightarrow> RebalanceState
     \<Rightarrow> js_error option \<times> RebalanceState" where
  "handleSubmit_rebalance_try h env rebalanceType actionType amt st =
     (let st1 = checkAndApproveRequiredAssets h env rebalanceType st in
      (case prepareRebalance env rebalanceType amt st1 of
         (Inl e, st2) \<Rightarrow> (Some e, st2)
       | (Inr None, st2) \<Rightarrow> (None, st2)
       | (Inr (Some (hint, estimatedGas)), st2) \<Rightarrow>
           (case rb_send env rebalanceType amt hint (rb_applyGasSlippage env estimatedGas) of
              Inl e \<Rightarrow> (Some e, st2)
            | Inr response \<Rightarrow>
                let st3 = st2\<lparr>sent := sent st2 @ [RebalanceTx rebalanceType amt hint
                                                     (rb_applyGasSlippage env estimatedGas)]\<rparr> in
                (case response of
                   Some e \<Rightarrow> (Some e, st3)
                 | None \<Rightarrow>
                     (None,
                      st3\<lparr>amountText := [], amountSigned := None,
                          success := Some ''Low level rebalance executed successfully!'',
                          maxValue :=
                            (case loadMaxValue (rb_maxReads env) rebalanceType actionType
                                    (rb_borrowBal env) (rb_collateralBal env) of
                               None \<Rightarrow> maxValue st3
                             | Some m \<Rightarrow> Some m)\<rparr>)))))"

text \<open>\<open>handleSubmit\<close> of the low-level rebalance handler.\<close>

definition handleSubmit_rebalance ::
  "SignerHandles \<Rightarrow> RebalanceEnv \<Rightarrow> TokenType \<Rightarrow> RebalanceActionType \<Rightarrow> RebalanceState \<Rightarrow> RebalanceState" where
  "handleSubmit_rebalance h env rebalanceType actionType st =
     (case amountSigned st of
        None \<Rightarrow> st
      | Some amt \<Rightarrow>
          if \<not> hasVault h \<or> \<not> hasVaultLens h \<or> \<not> hasAddress h \<or> amt = 0 then st
          else
            let st0 = st\<lparr>loading := True, error := None, success := None, approvalError := None\<rparr> in
            (case handleSubmit_rebalance_try h env rebalanceType actionType amt st0 of
               (None, st1) \<Rightarrow> st1\<lparr>loading := False\<rparr>
             | (Some err, st1) \<Rightarrow>
                 (if isUserRejected err then st1\<lparr>error := Some ''Transaction canceled by user.''\<rparr>
                  else logError ''Failed to execute low level rebalance:''
                         (st1\<lparr>error := Some ''Failed to execute low level rebalance.''\<rparr>))
                 \<lparr>loading := False\<rparr>))"


section \<open>A sample session\<close>

text \<open>
  A connected session used to run the handlers on concrete inputs: every handle is set,
  the input reads \<open>50\<close>, every read resolves, the signer signs and every transaction
  confirms. The user holds \<open>100\<close> of everything and the vault allows \<open>100\<close>.
\<close>

definition sampleHandles :: SignerHandles where
  "sampleHandles =
     \<lparr>hasPublicProvider = True, hasCurrentNetwork = True, hasAddress = True, hasVaultLens = True,
      hasBorrowTokenLens = True, hasCollateralTokenLens = True,
      hasVault = True, hasBorrowToken = True, hasCollateralToken = True, hasVaultAddress = True,
      hasHelperAddress = True, hasSafeHelperBorrow = True, hasSafeHelperCollateral = True\<rparr>"

definition sampleState :: SubmitState where
  "sampleState =
     \<lparr>loading = False, error = None, success = None, amountText = ''50'', sent = [], console = []\<rparr>"

definition sampleEnv :: SubmitEnv where
  "sampleEnv =
     \<lparr>parseUnits = (\<lambda>s. if s = ''50'' then Inr 50 else Inl (JsError False)),
      applyGasSlippage = (\<lambda>g. 2 * g),
      wrapEth = (\<lambda>missing ethBal st. (None, st)),
      tokenIsWETH = False,
      tokenSymbol = ''TKN'',
      sharesSymbol = ''SHR'',
      vaultLens_previewMint = (\<lambda>b n. Inr n),
      tokenLens_balanceOf = Inr 100,
      tokenLens_balanceOf_afterWrap = Inr 100,
      publicProvider_getBalance = Inr 100,
      tokenLens_allowance = Inr 0,
      token_approve = (\<lambda>n. Inr None),
      vaultLens_estimateGas = (\<lambda>a b n. Inr 21000),
      vault_send = (\<lambda>a b n g. Inr None),
      vaultLens_balanceOf_user = Inr 100,
      vaultLens_maxRedeem = (\<lambda>b. Inr 100),
      vaultLens_maxWithdraw = (\<lambda>b. Inr 100),
      slippageValid = True,
      slippageFactorDown = 9950,
      slippageFactorUp = 10050,
      vaultLens_preview = (\<lambda>a b n. Inr n),
      vaultLens_allowance_helper = Inr 0,
      tokenLens_allowance_helper = Inr 0,
      vault_approve = (\<lambda>n. Inr None),
      token_approve_helper = (\<lambda>n. Inr None),
      safeHelper_estimateGas = (\<lambda>a b n bound. Inr 21000),
      safeHelper_send = (\<lambda>a b n bound g. Inr None)\<rparr>"

definition sampleRebalanceState :: RebalanceState where
  "sampleRebalanceState =
     \<lparr>loading = False, error = None, success = None, amountText = ''50'', sent = [], console = [],
      amountSigned = Some 50, approvalError = None, isApproving = False,
      previewData = Some \<lparr>deltaCollateral = Some 7, deltaBorrow = Some 4, deltaShares = None\<rparr>,
      maxValue = None\<rparr>"

definition sampleRebalanceEnv :: RebalanceEnv where
  "sampleRebalanceEnv =
     \<lparr>rb_applyGasSlippage = (\<lambda>g. 2 * g),
      rb_allowance = (\<lambda>t. Inr 0),
      rb_approve = (\<lambda>t n. Inr None),
      rb_symbol = (\<lambda>t. ''TKN''),
      rb_previewBorrow = (\<lambda>n. Inr (1, 1)),
      rb_previewCollateral = (\<lambda>n. Inr (1, 1)),
      rb_estimateGas = (\<lambda>t n hint. Inr 21000),
      rb_send = (\<lambda>t n hint g. Inr None),
      rb_maxReads = None,
      rb_borrowBal = Some 100,
      rb_collateralBal = Some 100\<rparr>"

section \<open>Theorems\<close>

lemma bigint_div_nonneg: "0 \<le> a \<Longrightarrow> 0 < b \<Longrightarrow> bigint_div a b = a div b"
  by (cases "a = 0") (simp_all add: bigint_div_def)


subsection \<open>The precision buffer (C9)\<close>

lemma precision_quotient:
  fixes x :: int
  assumes "0 \<le> x"
  shows "x - (x * 99999999) div 100000000 = (x + 99999999) div 100000000"
proof -
  define q where "q = (x * 99999999) div 100000000"
  define m where "m = (x * 99999999) mod 100000000"
  have qm: "x * 99999999 = 100000000 * q + m" and m: "0 \<le> m" "m < 100000000"
    by (simp_all add: q_def m_def)
  have "x + 99999999 = 100000000 * (x - q) + (99999999 - m)"
    using qm by (simp add: algebra_simps)
  moreover have "0 \<le> 99999999 - m" "99999999 - m < 100000000"
    using m by linarith+
  ultimately have "(x + 99999999) div 100000000 = x - q"
    by (rule int_div_pos_eq)
  then show ?thesis by (simp add: q_def)
qed

lemma ceil_le_tenth:
  fixes x :: int
  assumes "10000000 \<le> x"
  shows "(x + 99999999) div 100000000 \<le> x div 10000000"
proof -
  define k where "k = x div 100000000"
  define s where "s = x mod 100000000"
  define k7 where "k7 = x div 10000000"
  define s7 where "s7 = x mod 10000000"
  define c where "c = (x + 99999999) div 100000000"
  define t where "t = (x + 99999999) mod 100000000"
  have a: "x = 100000000 * k + s" "0 \<le> s" "s < 100000000"
    by (simp_all add: k_def s_def)
  have b: "x = 10000000 * k7 + s7" "0 \<le> s7" "s7 < 10000000"
    by (simp_all add: k7_def s7_def)
  have d: "x + 99999999 = 100000000 * c + t" "0 \<le> t" "t < 100000000"
    by (simp_all add: c_def t_def)
  have k0: "0 \<le> k" using assms by (simp add: k_def)
  have "c \<le> k + 1" using a d by linarith
  moreover have "k + 1 \<le> k7"
  proof (cases "k = 0")
    case True
    then show ?thesis using assms b by linarith
  next
    case False
    then have "1 \<le> k" using k0 by linarith
    then show ?thesis using a b by linarith
  qed
  ultimately show ?thesis by (simp add: c_def k7_def)
qed

text \<open>
  Claim C9, amended. For every non-negative \<open>x\<close> the result lies between \<open>0\<close> and
  \<open>x\<close>, and the amount taken off is exactly \<open>x / 10^8\<close> rounded up. It is therefore at
  most \<open>x div 10^8 + 1\<close>, and it is at most \<open>x div 10^7\<close> when \<open>x = 0\<close> or
  \<open>x \<ge> 10^7\<close>.
\<close>

theorem reduceByPrecisionBuffer_bounds:
  assumes "0 \<le> x"
  shows "0 \<le> reduceByPrecisionBuffer x \<and> reduceByPrecisionBuffer x \<le> x
       \<and> x - reduceByPrecisionBuffer x = (x + 99999999) div 100000000
       \<and> x - reduceByPrecisionBuffer x \<le> x div 100000000 + 1
       \<and> (x = 0 \<or> 10000000 \<le> x \<longrightarrow> x - reduceByPrecisionBuffer x \<le> x div 10000000)"
proof -
  have r: "reduceByPrecisionBuffer x = (x * 99999999) div 100000000"
    using assms by (simp add: reduceByPrecisionBuffer_def bigint_div_nonneg)
  have c: "x - reduceByPrecisionBuffer x = (x + 99999999) div 100000000"
    unfolding r using assms by (rule precision_quotient)
  have p1: "0 \<le> reduceByPrecisionBuffer x"
    unfolding r using assms by (simp add: pos_imp_zdiv_nonneg_iff)
  have "0 \<le> (x + 99999999) div 100000000"
    using assms by (simp add: pos_imp_zdiv_nonneg_iff)
  then have p2: "reduceByPrecisionBuffer x \<le> x" using c by linarith
  have "(x + 99999999) div 100000000 \<le> (x + 100000000) div 100000000"
    by (rule zdiv_mono1) simp_all
  then have p3: "x - reduceByPrecisionBuffer x \<le> x div 100000000 + 1"
    using c by simp
  have p4: "x - reduceByPrecisionBuffer x \<le> x div 10000000" if "x = 0 \<or> 10000000 \<le> x"
    using that
  proof
    assume "x = 0"
    then show ?thesis by (simp add: reduceByPrecisionBuffer_def bigint_div_def)
  next
    assume "10000000 \<le> x"
    then show ?thesis using c ceil_le_tenth by simp
  qed
  show ?thesis using p1 p2 c p3 p4 by blast
qed

text \<open>The bound at \<open>x = 250000000\<close>: three units are taken off.\<close>

theorem reduceByPrecisionBuffer_bounds_witness:
  "(0::int) \<le> 250000000 \<and> reduceByPrecisionBuffer 250000000 = 249999997
     \<and> 250000000 - reduceByPrecisionBuffer 250000000 \<le> 250000000 div 10000000"
  using reduceByPrecisionBuffer_bounds [of 250000000]
  by (simp add: reduceByPrecisionBuffer_def bigint_div_def)

text \<open>
  Claim C9 as stated fails at \<open>x = 1\<close>: the result is \<open>0\<close>, so the error is \<open>1\<close>,
  which exceeds \<open>1 / 10^7\<close> both with truncating and with exact division.
\<close>

theorem reduceByPrecisionBuffer_counterexample:
  "(0::int) \<le> 1 \<and> \<not> (1 - reduceByPrecisionBuffer 1 \<le> 1 div 10000000)
     \<and> \<not> ((1 - reduceByPrecisionBuffer 1) * 10000000 \<le> 1)"
  by (simp add: reduceByPrecisionBuffer_def bigint_div_def)


subsection \<open>The vault context: maxima and balance refresh (C3, C4, C5)\<close>


lemma calculateMaxValues_try_redeem_withdraw:
  assumes "calculateMaxValues_try bw cw vl st = Some st'"
    and "sharesBalance st = Some s"
    and "vaultMaxRedeem st = Some vr" "vaultMaxRedeemCollateral st = Some vrc"
    and "vaultMaxWithdraw st = Some vw" "vaultMaxWithdrawCollateral st = Some vwc"
  shows "maxRedeem st' = Some (min s vr)" "maxRedeemCollateral st' = Some (min s vrc)"
        "maxWithdraw st' = Some vw" "maxWithdrawCollateral st' = Some vwc"
  using assms unfolding calculateMaxValues_try_def Let_def
  by (auto simp: bind_eq_Some_conv minBigInt_def)

lemma calculateMaxValues_runs:
  assumes "hasPublicProvider h" "hasCurrentNetwork h" "hasAddress h" "hasVaultLens h"
          "hasBorrowTokenLens h" "hasCollateralTokenLens h"
    and "calculateMaxValues_try bw cw vl st = Some st'"
  shows "calculateMaxValues h bw cw vl st = st'"
  using assms by (simp add: calculateMaxValues_def)




text \<open>
  Claim C4, amended. When the computation of the maxima completes, the redeem maximum on
  either side is the smaller of the user's share balance and the vault's limit, and the
  withdraw maximum on either side is the vault's limit as read, with no comparison against
  a user balance. None of the four involves the gas reserve.
\<close>

theorem calculateMaxValues_redeem_withdraw:
  assumes "hasPublicProvider h" "hasCurrentNetwork h" "hasAddress h" "hasVaultLens h"
          "hasBorrowTokenLens h" "hasCollateralTokenLens h"
    and "sharesBalance st = Some s"
    and "vaultMaxRedeem st = Some vr" "vaultMaxRedeemCollateral st = Some vrc"
    and "vaultMaxWithdraw st = Some vw" "vaultMaxWithdrawCollateral st = Some vwc"
    and "calculateMaxValues_try bw cw vl st \<noteq> None"
  shows "maxRedeem (calculateMaxValues h bw cw vl st) = Some (min s vr)
       \<and> maxRedeemCollateral (calculateMaxValues h bw cw vl st) = Some (min s vrc)
       \<and> maxWithdraw (calculateMaxValues h bw cw vl st) = Some vw
       \<and> maxWithdrawCollateral (calculateMaxValues h bw cw vl st) = Some vwc"
proof -
  obtain st' where t: "calculateMaxValues_try bw cw vl st = Some st'"
    using assms(12) by blast
  have r: "calculateMaxValues h bw cw vl st = st'"
    using assms(1-6) t by (rule calculateMaxValues_runs)
  show ?thesis
    unfolding r using calculateMaxValues_try_redeem_withdraw [OF t assms(7-11)] by simp
qed

text \<open>
  A user holding \<open>3\<close> of everything, every vault limit \<open>5\<close>: redeem is capped by the
  share balance, withdraw is the vault's \<open>5\<close>.
\<close>

theorem calculateMaxValues_redeem_withdraw_witness:
  "maxRedeem (calculateMaxValues allHandles False False
      \<lparr>previewDeposit = (\<lambda>a. Some a), previewDepositCollateral = (\<lambda>a. Some a)\<rparr>
      (initialVaultContextState\<lparr>ethBalance := Some 3, sharesBalance := Some 3,
         borrowTokenBalance := Some 3, collateralTokenBalance := Some 3,
         vaultMaxDeposit := Some 5, vaultMaxRedeem := Some 5, vaultMaxMint := Some 5,
         vaultMaxWithdraw := Some 5, vaultMaxDepositCollateral := Some 5,
         vaultMaxRedeemCollateral := Some 5, vaultMaxMintCollateral := Some 5,
         vaultMaxWithdrawCollateral := Some 5\<rparr>)) = Some 3
   \<and> maxWithdraw (calculateMaxValues allHandles False False
      \<lparr>previewDeposit = (\<lambda>a. Some a), previewDepositCollateral = (\<lambda>a. Some a)\<rparr>
      (initialVaultContextState\<lparr>ethBalance := Some 3, sharesBalance := Some 3,
         borrowTokenBalance := Some 3, collateralTokenBalance := Some 3,
         vaultMaxDeposit := Some 5, vaultMaxRedeem := Some 5, vaultMaxMint := Some 5,
         vaultMaxWithdraw := Some 5, vaultMaxDepositCollateral := Some 5,
         vaultMaxRedeemCollateral := Some 5, vaultMaxMintCollateral := Some 5,
         vaultMaxWithdrawCollateral := Some 5\<rparr>)) = Some 5"
  using calculateMaxValues_redeem_withdraw [of allHandles
      "initialVaultContextState\<lparr>ethBalance := Some 3, sharesBalance := Some 3,
         borrowTokenBalance := Some 3, collateralTokenBalance := Some 3,
         vaultMaxDeposit := Some 5, vaultMaxRedeem := Some 5, vaultMaxMint := Some 5,
         vaultMaxWithdraw := Some 5, vaultMaxDepositCollateral := Some 5,
         vaultMaxRedeemCollateral := Some 5, vaultMaxMintCollateral := Some 5,
         vaultMaxWithdrawCollateral := Some 5\<rparr>"
      3 5 5 5 5 False False
      "\<lparr>previewDeposit = (\<lambda>a. Some a), previewDepositCollateral = (\<lambda>a. Some a)\<rparr>"]
  by (simp add: allHandles_def initialVaultContextState_def calculateMaxValues_try_def Let_def)

text \<open>
  Claim C4 as stated fails for withdraw: with every user balance at \<open>3\<close> and the vault's
  withdraw limits at \<open>5\<close>, the withdraw maxima are \<open>5\<close> on both sides, not
  \<open>min 5 3\<close>.
\<close>

theorem calculateMaxValues_withdraw_counterexample:
  "maxWithdraw (calculateMaxValues allHandles False False
      \<lparr>previewDeposit = (\<lambda>a. Some a), previewDepositCollateral = (\<lambda>a. Some a)\<rparr>
      (initialVaultContextState\<lparr>ethBalance := Some 3, sharesBalance := Some 3,
         borrowTokenBalance := Some 3, collateralTokenBalance := Some 3,
         vaultMaxDeposit := Some 5, vaultMaxRedeem := Some 5, vaultMaxMint := Some 5,
         vaultMaxWithdraw := Some 5, vaultMaxDepositCollateral := Some 5,
         vaultMaxRedeemCollateral := Some 5, vaultMaxMintCollateral := Some 5,
         vaultMaxWithdrawCollateral := Some 5\<rparr>)) \<noteq> Some (min 5 3)
   \<and> maxWithdrawCollateral (calculateMaxValues allHandles False False
      \<lparr>previewDeposit = (\<lambda>a. Some a), previewDepositCollateral = (\<lambda>a. Some a)\<rparr>
      (initialVaultContextState\<lparr>ethBalance := Some 3, sharesBalance := Some 3,
         borrowTokenBalance := Some 3, collateralTokenBalance := Some 3,
         vaultMaxDeposit := Some 5, vaultMaxRedeem := Some 5, vaultMaxMint := Some 5,
         vaultMaxWithdraw := Some 5, vaultMaxDepositCollateral := Some 5,
         vaultMaxRedeemCollateral := Some 5, vaultMaxMintCollateral := Some 5,
         vaultMaxWithdrawCollateral := Some 5\<rparr>)) \<noteq> Some (min 5 3)"
  by (simp add: allHandles_def initialVaultContextState_def calculateMaxValues_def
      calculateMaxValues_try_def Let_def)

text \<open>
  Claim C5, amended. A refresh that passes its guard writes the native balance as soon as
  it is read and the three token balances together once all three are read. So: when the
  native read fails, the four balances keep their previous values; when it succeeds and
  one of the token reads fails, \<open>ethBalance\<close> is replaced and the three token balances
  keep their previous values; when all reads succeed, the four balances are replaced.
\<close>

theorem loadBalances_outcomes:
  assumes "hasPublicProvider h" "hasAddress h" "hasVaultLens h"
          "hasBorrowTokenLens h" "hasCollateralTokenLens h"
  shows "(getBalance rd = None \<longrightarrow>
            ethBalance (loadBalances h rd m st) = ethBalance st
          \<and> sharesBalance (loadBalances h rd m st) = sharesBalance st
          \<and> borrowTokenBalance (loadBalances h rd m st) = borrowTokenBalance st
          \<and> collateralTokenBalance (loadBalances h rd m st) = collateralTokenBalance st)
       \<and> (getBalance rd \<noteq> None \<and>
            (vaultLens_balanceOf rd = None \<or> borrowTokenLens_balanceOf rd = None
               \<or> collateralTokenLens_balanceOf rd = None) \<longrightarrow>
            ethBalance (loadBalances h rd m st) = getBalance rd
          \<and> sharesBalance (loadBalances h rd m st) = sharesBalance st
          \<and> borrowTokenBalance (loadBalances h rd m st) = borrowTokenBalance st
          \<and> collateralTokenBalance (loadBalances h rd m st) = collateralTokenBalance st)
       \<and> (getBalance rd \<noteq> None \<and> vaultLens_balanceOf rd \<noteq> None
            \<and> borrowTokenLens_balanceOf rd \<noteq> None \<and> collateralTokenLens_balanceOf rd \<noteq> None \<longrightarrow>
            ethBalance (loadBalances h rd m st) = getBalance rd
          \<and> sharesBalance (loadBalances h rd m st) = vaultLens_balanceOf rd
          \<and> borrowTokenBalance (loadBalances h rd m st) = borrowTokenLens_balanceOf rd
          \<and> collateralTokenBalance (loadBalances h rd m st) = collateralTokenLens_balanceOf rd)"
  using assms
  by (auto simp: loadBalances_def promiseAll3_def Let_def split: option.splits)

text \<open>
  A refresh whose native read answers \<open>7\<close> and whose share read fails, from a state
  holding \<open>1\<close> everywhere.
\<close>

theorem loadBalances_outcomes_witness:
  "ethBalance (loadBalances allHandles
       \<lparr>getBalance = Some 7, vaultLens_balanceOf = None, borrowTokenLens_balanceOf = Some 8,
        collateralTokenLens_balanceOf = Some 9\<rparr> False
       (initialVaultContextState\<lparr>ethBalance := Some 1, sharesBalance := Some 1,
          borrowTokenBalance := Some 1, collateralTokenBalance := Some 1\<rparr>)) = Some 7
   \<and> borrowTokenBalance (loadBalances allHandles
       \<lparr>getBalance = Some 7, vaultLens_balanceOf = None, borrowTokenLens_balanceOf = Some 8,
        collateralTokenLens_balanceOf = Some 9\<rparr> False
       (initialVaultContextState\<lparr>ethBalance := Some 1, sharesBalance := Some 1,
          borrowTokenBalance := Some 1, collateralTokenBalance := Some 1\<rparr>)) = Some 1"
  using loadBalances_outcomes [of allHandles
       "\<lparr>getBalance = Some 7, vaultLens_balanceOf = None, borrowTokenLens_balanceOf = Some 8,
        collateralTokenLens_balanceOf = Some 9\<rparr>" False
       "initialVaultContextState\<lparr>ethBalance := Some 1, sharesBalance := Some 1,
          borrowTokenBalance := Some 1, collateralTokenBalance := Some 1\<rparr>"]
  by (simp add: allHandles_def initialVaultContextState_def)

text \<open>
  Claim C5 as stated fails: after the refresh above the tuple is neither the previous one
  nor fully replaced, since \<open>ethBalance\<close> is new and \<open>sharesBalance\<close> is old.
\<close>

theorem loadBalances_partial_update_counterexample:
  "ethBalance (loadBalances allHandles
       \<lparr>getBalance = Some 7, vaultLens_balanceOf = None, borrowTokenLens_balanceOf = Some 8,
        collateralTokenLens_balanceOf = Some 9\<rparr> False
       (initialVaultContextState\<lparr>ethBalance := Some 1, sharesBalance := Some 1,
          borrowTokenBalance := Some 1, collateralTokenBalance := Some 1\<rparr>)) = Some 7
   \<and> ethBalance (initialVaultContextState\<lparr>ethBalance := Some 1, sharesBalance := Some 1,
          borrowTokenBalance := Some 1, collateralTokenBalance := Some 1\<rparr>) = Some 1
   \<and> sharesBalance (loadBalances allHandles
       \<lparr>getBalance = Some 7, vaultLens_balanceOf = None, borrowTokenLens_balanceOf = Some 8,
        collateralTokenLens_balanceOf = Some 9\<rparr> False
       (initialVaultContextState\<lparr>ethBalance := Some 1, sharesBalance := Some 1,
          borrowTokenBalance := Some 1, collateralTokenBalance := Some 1\<rparr>)) = Some 1
   \<and> borrowTokenBalance (loadBalances allHandles
       \<lparr>getBalance = Some 7, vaultLens_balanceOf = None, borrowTokenLens_balanceOf = Some 8,
        collateralTokenLens_balanceOf = Some 9\<rparr> False
       (initialVaultContextState\<lparr>ethBalance := Some 1, sharesBalance := Some 1,
          borrowTokenBalance := Some 1, collateralTokenBalance := Some 1\<rparr>)) \<noteq> Some 8"
  by (simp add: allHandles_def initialVaultContextState_def loadBalances_def promiseAll3_def)


subsection \<open>The low-level rebalance handler: preview legs and available maximum (C1, C2)\<close>

text \<open>
  Claim C1. In the preview of a rebalance by shares, the collateral legs and the borrow
  legs are decided leg by leg: a positive collateral delta is one provide leg and a
  negative one is one receive leg, each with the absolute value; a positive borrow delta
  is one receive leg and a negative one is one provide leg; a delta that is zero or
  absent gives no leg of that token in either list.
\<close>

theorem getReceiveAndProvide_shares_legs:
  "filter (\<lambda>l. tokenType l = Collateral) (provide (getReceiveAndProvide (Some pd) amt Shares))
     = (case deltaCollateral pd of None \<Rightarrow> []
        | Some dc \<Rightarrow> if dc > 0 then [\<lparr>amount = dc, tokenType = Collateral\<rparr>] else [])
   \<and> filter (\<lambda>l. tokenType l = Collateral) (receive (getReceiveAndProvide (Some pd) amt Shares))
     = (case deltaCollateral pd of None \<Rightarrow> []
        | Some dc \<Rightarrow> if dc < 0 then [\<lparr>amount = - dc, tokenType = Collateral\<rparr>] else [])
   \<and> filter (\<lambda>l. tokenType l = Borrow) (provide (getReceiveAndProvide (Some pd) amt Shares))
     = (case deltaBorrow pd of None \<Rightarrow> []
        | Some db \<Rightarrow> if db < 0 then [\<lparr>amount = - db, tokenType = Borrow\<rparr>] else [])
   \<and> filter (\<lambda>l. tokenType l = Borrow) (receive (getReceiveAndProvide (Some pd) amt Shares))
     = (case deltaBorrow pd of None \<Rightarrow> []
        | Some db \<Rightarrow> if db > 0 then [\<lparr>amount = db, tokenType = Borrow\<rparr>] else [])"
  by (auto simp: getReceiveAndProvide_def addToList_def Let_def split: option.splits)


text \<open>
  A mint of \<open>10\<close> shares whose preview asks for \<open>7\<close> collateral and hands out \<open>4\<close>
  of borrow: collateral is provided, borrow is received.
\<close>

theorem getReceiveAndProvide_shares_legs_witness:
  "filter (\<lambda>l. tokenType l = Collateral)
     (provide (getReceiveAndProvide
        (Some \<lparr>deltaCollateral = Some 7, deltaBorrow = Some 4, deltaShares = None\<rparr>) (Some 10) Shares))
     = [\<lparr>amount = 7, tokenType = Collateral\<rparr>]
   \<and> filter (\<lambda>l. tokenType l = Borrow)
     (receive (getReceiveAndProvide
        (Some \<lparr>deltaCollateral = Some 7, deltaBorrow = Some 4, deltaShares = None\<rparr>) (Some 10) Shares))
     = [\<lparr>amount = 4, tokenType = Borrow\<rparr>]"
  using getReceiveAndProvide_shares_legs
    [of "\<lparr>deltaCollateral = Some 7, deltaBorrow = Some 4, deltaShares = None\<rparr>" "Some 10"]
  by simp

text \<open>
  Claim C2. On the borrow or the collateral side, once the vault's signed maximum and the
  user's balance are read: when the sign of the vault's maximum (negative: the vault
  must receive) does not match the selected action, the available maximum is zero; when
  the vault's maximum is negative and the action is provide, the available maximum is
  the non-positive amount of magnitude \<open>min userBalance \<bar>vaultMax\<bar>\<close>; when it is
  non-negative and the action is not provide, it is \<open>min vaultMax userBalance\<close>.
  A token balance is never negative.
\<close>

theorem loadMaxValue_direction:
  assumes "rebalanceType = Borrow \<or> rebalanceType = Collateral"
    and "(if rebalanceType = Borrow then maxLowLevelRebalanceBorrow vl
          else maxLowLevelRebalanceCollateral vl) = Inr vaultMax"
    and "(if rebalanceType = Borrow then borrowBal else collateralBal) = Some userBalance"
    and "0 \<le> userBalance"
  shows "((vaultMax < 0) \<noteq> (actionType = RProvide) \<longrightarrow>
            loadMaxValue (Some vl) rebalanceType actionType borrowBal collateralBal = Some 0)
       \<and> (vaultMax < 0 \<and> actionType = RProvide \<longrightarrow>
            (\<exists>m. loadMaxValue (Some vl) rebalanceType actionType borrowBal collateralBal = Some m
                 \<and> m \<le> 0 \<and> \<bar>m\<bar> = min userBalance \<bar>vaultMax\<bar>))
       \<and> (0 \<le> vaultMax \<and> actionType \<noteq> RProvide \<longrightarrow>
            loadMaxValue (Some vl) rebalanceType actionType borrowBal collateralBal
              = Some (min vaultMax userBalance))"
  using assms
  by (auto simp: loadMaxValue_def Let_def split: if_splits)

text \<open>
  The vault wants \<open>50\<close> of the borrow token and the user holds \<open>30\<close>: provide offers
  \<open>-30\<close>, receive offers nothing.
\<close>

theorem loadMaxValue_direction_witness:
  "loadMaxValue (Some \<lparr>maxLowLevelRebalanceShares = Inr 0, maxLowLevelRebalanceBorrow = Inr (- 50),
       maxLowLevelRebalanceCollateral = Inr 0\<rparr>) Borrow RProvide (Some 30) (Some 0) = Some (- 30)
   \<and> loadMaxValue (Some \<lparr>maxLowLevelRebalanceShares = Inr 0, maxLowLevelRebalanceBorrow = Inr (- 50),
       maxLowLevelRebalanceCollateral = Inr 0\<rparr>) Borrow RReceive (Some 30) (Some 0) = Some 0"
  using loadMaxValue_direction [of Borrow
      "\<lparr>maxLowLevelRebalanceShares = Inr 0, maxLowLevelRebalanceBorrow = Inr (- 50),
       maxLowLevelRebalanceCollateral = Inr 0\<rparr>" "- 50" "Some 30" "Some 0" 30 RProvide]
    loadMaxValue_direction [of Borrow
      "\<lparr>maxLowLevelRebalanceShares = Inr 0, maxLowLevelRebalanceBorrow = Inr (- 50),
       maxLowLevelRebalanceCollateral = Inr 0\<rparr>" "- 50" "Some 30" "Some 0" 30 RReceive]
  by (simp add: loadMaxValue_def)


subsection \<open>Minimum available amounts (C8)\<close>

lemma bigint_div_pos: "0 < a \<Longrightarrow> 0 < b \<Longrightarrow> bigint_div a b = a div b"
  by (simp add: bigint_div_def)

text \<open>
  Claim C8, amended. With the imbalance \<open>d\<close> read from the zero-amount rebalance preview:
  for \<open>d > 0\<close> the minimum mint is \<open>max (d * 101 / 100) (d + 5 * c)\<close>, where \<open>c\<close> is the
  vault's variable-debt balance converted to shares, times \<open>2 / 10000000\<close>, and the
  minimum redeem is zero; for \<open>d < 0\<close> the minimum redeem is \<open>\<bar>d\<bar> * 10001 / 10000\<close>
  and the minimum mint is zero; for \<open>d = 0\<close> both are zero. All divisions truncate. The
  deposit/withdraw handler converts the same two share amounts to assets and pads the
  result by \<open>10001 / 10000\<close>.
\<close>

theorem loadMinAvailable_minima:
  assumes "previewLowLevelRebalanceBorrow_0 rd = Inr (dc, d)"
  shows "(d > 0 \<and> variableDebtToken_balanceOf rd = Inr debt \<and> convertToShares rd debt = Inr s \<longrightarrow>
            loadMinAvailable True rd st =
              (None, \<lparr>minMint = Some (max (d * 101 div 100) (d + 5 * bigint_div (s * 2) 10000000)),
                      minRedeem = Some 0\<rparr>)
          \<and> (\<forall>a. convertToAssets rd (max (d * 101 div 100) (d + 5 * bigint_div (s * 2) 10000000)) = Inr a \<longrightarrow>
                loadMinAvailable_depositWithdraw True rd st' =
                  (None, \<lparr>minDeposit = Some (bigint_div (a * 10001) 10000), minWithdraw = Some 0\<rparr>)))
       \<and> (d < 0 \<longrightarrow>
            loadMinAvailable True rd st =
              (None, \<lparr>minMint = Some 0, minRedeem = Some (\<bar>d\<bar> * 10001 div 10000)\<rparr>)
          \<and> (\<forall>a. convertToAssets rd (\<bar>d\<bar> * 10001 div 10000) = Inr a \<longrightarrow>
                loadMinAvailable_depositWithdraw True rd st' =
                  (None, \<lparr>minDeposit = Some 0, minWithdraw = Some (bigint_div (a * 10001) 10000)\<rparr>)))
       \<and> (d = 0 \<longrightarrow>
            loadMinAvailable True rd st = (None, \<lparr>minMint = Some 0, minRedeem = Some 0\<rparr>)
          \<and> loadMinAvailable_depositWithdraw True rd st' =
              (None, \<lparr>minDeposit = Some 0, minWithdraw = Some 0\<rparr>))"
proof -
  have pos: "bigint_div (d * 101) 100 = d * 101 div 100" if "0 < d"
    using that by (simp add: bigint_div_pos)
  have neg: "bigint_div (- d * 10001) 10000 = \<bar>d\<bar> * 10001 div 10000" if "d < 0"
    using that by (simp add: bigint_div_pos)
  show ?thesis
    using assms pos neg
    by (auto simp: loadMinAvailable_def loadMinAvailable_depositWithdraw_def Let_def maxBigInt_def
          max_def)
qed


text \<open>
  An imbalance of \<open>10000\<close> shares with a debt worth \<open>10^10\<close> shares (\<open>c = 2000\<close>):
  the minimum mint is \<open>max 10100 20000 = 20000\<close>.
\<close>

theorem loadMinAvailable_minima_witness:
  "loadMinAvailable True
     \<lparr>previewLowLevelRebalanceBorrow_0 = Inr (0, 10000), variableDebtToken_balanceOf = Inr 10000000000,
      convertToShares = (\<lambda>a. Inr a), convertToAssets = (\<lambda>a. Inr a)\<rparr>
     \<lparr>minMint = None, minRedeem = None\<rparr>
   = (None, \<lparr>minMint = Some 20000, minRedeem = Some 0\<rparr>)"
  using loadMinAvailable_minima [of
     "\<lparr>previewLowLevelRebalanceBorrow_0 = Inr (0, 10000), variableDebtToken_balanceOf = Inr 10000000000,
      convertToShares = (\<lambda>a. Inr a), convertToAssets = (\<lambda>a. Inr a)\<rparr>"
     0 10000 10000000000 10000000000 "\<lparr>minMint = None, minRedeem = None\<rparr>"]
  by (simp add: bigint_div_def)

text \<open>
  Claim C8 as stated fails on the redeem side. With an imbalance of \<open>-10000\<close> shares and
  the same debt (\<open>c = 2000\<close>) the minimum redeem is \<open>10001\<close>, whereas
  \<open>max (d * 1.01) (d + 5 * c)\<close> on the magnitude \<open>10000\<close> is \<open>20000\<close>.
\<close>

theorem loadMinAvailable_redeem_counterexample:
  "minRedeem (snd (loadMinAvailable True
     \<lparr>previewLowLevelRebalanceBorrow_0 = Inr (0, - 10000), variableDebtToken_balanceOf = Inr 10000000000,
      convertToShares = (\<lambda>a. Inr a), convertToAssets = (\<lambda>a. Inr a)\<rparr>
     \<lparr>minMint = None, minRedeem = None\<rparr>)) = Some 10001
   \<and> (10001 :: int) \<noteq> max (10000 * 101 div 100) (10000 + 5 * (10000000000 * 2 div 10000000))"
  by (simp add: loadMinAvailable_def bigint_div_def)


subsection \<open>The auction maximum (C10)\<close>

lemma parseFormatted_scaled:
  assumes "rawBalance tb = Some raw" "tokenDecimals tb \<le> d"
  shows "parseFormatted tb d = Some (raw * 10 ^ (d - tokenDecimals tb))"
proof -
  define k where "k = raw * 10 ^ (d - tokenDecimals tb)"
  define t :: int where "t = 10 ^ tokenDecimals tb"
  have tpos: "t \<noteq> 0" by (simp add: t_def)
  have p: "(10::int) ^ d = 10 ^ (d - tokenDecimals tb) * t"
    unfolding t_def using assms(2) by (simp add: power_add [symmetric])
  have e: "raw * 10 ^ d = k * t"
    unfolding k_def by (subst p) (simp add: mult.assoc)
  have "(k * t) mod t = 0" "(k * t) div t = k"
    using tpos by simp_all
  then have "(raw * 10 ^ d) mod 10 ^ tokenDecimals tb = 0"
    and "(raw * 10 ^ d) div 10 ^ tokenDecimals tb = raw * 10 ^ (d - tokenDecimals tb)"
    unfolding e [symmetric] by (simp_all add: t_def k_def)
  then show ?thesis
    using assms(1) by (simp add: parseFormatted_def)
qed

text \<open>
  Claim C10, on the code. When an auction is pending (both pending amounts non-zero) and
  the balance of the provided token is loaded, the effect computes the maximum from the
  balance string read with the \<open>decimals\<close> of the previous render: for a token with
  \<open>dt\<close> decimals that is the user's balance times \<open>10^(decimals - dt)\<close>. The maximum is
  the smaller of that and the vault's need clamped at zero. It is the maximum of the claim
  only when the state already holds the decimals of the provided token.
\<close>

theorem auction_max_stale_decimals:
  assumes "fb \<noteq> 0" "fc \<noteq> 0"
    and "rawBalance (if fb > 0 then collateralTok else borrowTok) = Some raw"
    and "tokenDecimals (if fb > 0 then collateralTok else borrowTok) = dt"
    and "dt \<le> auctionDecimals st"
  shows "auctionMaxValue (auctionEffect True (Some fb) (Some fc) borrowTok collateralTok st)
           = Some (min (raw * 10 ^ (auctionDecimals st - dt)) (max 0 (if fb > 0 then fc else - fb)))
       \<and> auctionDecimals (auctionEffect True (Some fb) (Some fc) borrowTok collateralTok st) = dt
       \<and> (auctionDecimals st = dt \<longrightarrow>
            auctionMaxValue (auctionEffect True (Some fb) (Some fc) borrowTok collateralTok st)
              = Some (min raw (max 0 (if fb > 0 then fc else - fb))))"
proof -
  let ?tb = "getBalanceForAuctionType (Some fb) borrowTok collateralTok"
  have tb: "?tb = (if fb > 0 then collateralTok else borrowTok)"
    by (simp add: getBalanceForAuctionType_def auctionType_def)
  have pf: "parseFormatted ?tb (auctionDecimals st) = Some (raw * 10 ^ (auctionDecimals st - dt))"
    using parseFormatted_scaled [of ?tb raw "auctionDecimals st"] assms(3-5) tb by simp
  have m: "auctionMaxValue (auctionEffect True (Some fb) (Some fc) borrowTok collateralTok st)
           = Some (min (raw * 10 ^ (auctionDecimals st - dt)) (max 0 (if fb > 0 then fc else - fb)))"
    using assms(1,2) pf
    by (auto simp: auctionEffect_def loadMaxValue_auction_def auctionType_def Let_def)
  have d: "auctionDecimals (auctionEffect True (Some fb) (Some fc) borrowTok collateralTok st) = dt"
    using assms(1,4)
    by (auto simp: auctionEffect_def getDecimalsForAuctionType_def auctionType_def split: if_splits)
  show ?thesis using m d by simp
qed

text \<open>
  The first run of the effect for a collateral token of \<open>6\<close> decimals: the vault has
  excess borrow and needs \<open>60000000\<close> of collateral, the user holds \<open>25000000\<close>. The
  balance string \<open>25.0\<close> is read with \<open>18\<close> decimals, the maximum is \<open>60000000\<close>, and
  the button is enabled for \<open>26000000\<close>, which is more than the user holds.
\<close>

theorem auction_max_stale_decimals_witness:
  "auctionMaxValue (auctionEffect True (Some 40) (Some 60000000)
       \<lparr>rawBalance = Some 0, tokenDecimals = 18\<rparr> \<lparr>rawBalance = Some 25000000, tokenDecimals = 6\<rparr>
       initialAuctionState) = Some 60000000
   \<and> \<not> submitDisabled False False (Some 26000000)
        (auctionMaxValue (auctionEffect True (Some 40) (Some 60000000)
           \<lparr>rawBalance = Some 0, tokenDecimals = 18\<rparr> \<lparr>rawBalance = Some 25000000, tokenDecimals = 6\<rparr>
           initialAuctionState))
   \<and> (26000000 :: int) > min 25000000 (max 0 60000000)"
  using auction_max_stale_decimals [of 40 60000000
       "\<lparr>rawBalance = Some 25000000, tokenDecimals = 6\<rparr>" "\<lparr>rawBalance = Some 0, tokenDecimals = 18\<rparr>"
       25000000 6 initialAuctionState]
  by (simp add: initialAuctionState_def submitDisabled_def)

text \<open>
  The rest of the claim holds of the code as it stands: the side is chosen by the sign of
  \<open>futureBorrowAssets\<close>, with borrow for zero and for a missing value, and the button is
  disabled for every amount above the maximum held in the state.
\<close>

lemma auctionType_sign:
  "auctionType fba = (case fba of None \<Rightarrow> provide_borrow
                      | Some fb \<Rightarrow> if fb > 0 then provide_collateral else provide_borrow)"
  by (simp add: auctionType_def split: option.splits)

lemma submitDisabled_above_max: "a > m \<Longrightarrow> submitDisabled ld ap (Some a) (Some m)"
  by (simp add: submitDisabled_def)


subsection \<open>Submitting: the stale-maximum guard (C6) and rejection by the user (C7)\<close>

lemma refetchMaxBeforeTx_keeps:
  "refetchMaxBeforeTx h env act isBorrow st = (m, st') \<Longrightarrow>
     sent st' = sent st \<and> error st' = error st \<and> success st' = success st
     \<and> loading st' = loading st \<and> amountText st' = amountText st"
  by (auto simp: refetchMaxBeforeTx_def logError_def split: if_splits sum.splits)

lemma executePhase_max:
  assumes "act = Redeem \<or> act = Withdraw"
    and "refetchMaxBeforeTx h env act isBorrow st = (m, st2)"
  shows "executePhase h env act isBorrow True parsedAmount st =
           (case m of
              None \<Rightarrow> (Inr False, logError ''Error refetching max amount before tx.''
                           (st2\<lparr>error := Some ''Error refetching max amount before tx.''\<rparr>))
            | Some x \<Rightarrow>
                if x = 0 then
                  (Inr False, logError ''Error refetching max amount before tx.''
                     (st2\<lparr>error := Some ''Error refetching max amount before tx.''\<rparr>))
                else if x < parsedAmount then
                  (Inr False, logError ''Amount higher than available''
                     (st2\<lparr>error := Some ''Amount higher than available.''\<rparr>))
                else
                  (case executeVaultMethod h env act isBorrow x st2 of
                     (Some e, st3) \<Rightarrow> (Inl e, st3)
                   | (None, st3) \<Rightarrow> (Inr True, st3)))"
  using assms by (auto simp: executePhase_def split: option.splits)

lemma approvalPhase_none:
  "\<not> needsApproval act \<Longrightarrow> approvalPhase h env act isBorrow n st = (Inr True, st)"
  by (simp add: approvalPhase_def)

lemma executeVaultMethod_keeps:
  "executeVaultMethod h env act isBorrow n st = (r, st') \<Longrightarrow>
     error st' = error st \<and> success st' = success st \<and> loading st' = loading st
     \<and> amountText st' = amountText st \<and> console st' = console st
     \<and> (sent st' = sent st \<or> (\<exists>g. sent st' = sent st @ [VaultTx act isBorrow n g]))"
  by (auto simp: executeVaultMethod_def split: if_splits sum.splits)


lemma calculateSlippageBound_keeps:
  "calculateSlippageBound h env act isBorrow n st = (r, st') \<Longrightarrow>
     sent st' = sent st \<and> error st' = error st \<and> success st' = success st
     \<and> loading st' = loading st \<and> amountText st' = amountText st"
  by (auto simp: calculateSlippageBound_def logError_def split: if_splits sum.splits)

lemma handleApproval_safe_shares_sent:
  "handleApproval_safe h env isBorrow needed True st = (r, st') \<Longrightarrow>
     sent st' = sent st \<or> sent st' = sent st @ [ApproveTx Shares needed]"
  by (auto simp: handleApproval_safe_def Let_def split: if_splits sum.splits option.splits)

lemma approvalPhase_safe_sent:
  assumes "act = Redeem \<or> act = Withdraw"
    and "approvalPhase_safe h env act isBorrow parsedAmount bound st = (r, st')"
  shows "sent st' = sent st \<or> (\<exists>n. sent st' = sent st @ [ApproveTx Shares n])"
proof (cases "\<not> hasPublicProvider h \<or> \<not> hasVaultLens h")
  case True
  then show ?thesis using assms(2) by (auto simp: approvalPhase_safe_def)
next
  case False
  then have "handleApproval_safe h env isBorrow (if act = Withdraw then bound else parsedAmount) True st
               = (r, st')"
    using assms by (auto simp: approvalPhase_safe_def Let_def)
  from handleApproval_safe_shares_sent [OF this] show ?thesis by blast
qed

lemma maxPhase_safe_abort:
  assumes "act = Redeem \<or> act = Withdraw"
    and "refetchMaxBeforeTx h env act isBorrow st = (m, st2)"
  shows "(m = None \<or> m = Some 0 \<longrightarrow>
            maxPhase_safe h env act isBorrow True parsedAmount bound st =
              (None, logError ''Error refetching max amount before tx.''
                       (st2\<lparr>error := Some ''Error refetching max amount before tx.''\<rparr>)))
       \<and> (\<forall>x. m = Some x \<and> x \<noteq> 0 \<and> x < parsedAmount \<longrightarrow>
            maxPhase_safe h env act isBorrow True parsedAmount bound st =
              (None, logError ''Amount higher than available''
                       (st2\<lparr>error := Some ''Amount higher than available.''\<rparr>)))"
  using assms by (auto simp: maxPhase_safe_def)

lemma action_recheck_outcomes:
  assumes ra: "act = Redeem \<or> act = Withdraw"
    and hv: "hasVault h" "hasAddress h"
    and pa: "parseUnits env (amountText st) = Inr parsedAmount"
    and r: "refetchMaxBeforeTx h env act isBorrow (st\<lparr>loading := True, error := None, success := None\<rparr>)
              = (m, st2)"
  shows "m = None \<or> m = Some 0 \<Longrightarrow>
               error (handleSubmit h env act isBorrow True st) = Some ''Error refetching max amount before tx.''
             \<and> sent (handleSubmit h env act isBorrow True st) = sent st"
    and "m = Some x \<and> x \<noteq> 0 \<and> x < parsedAmount \<Longrightarrow>
               error (handleSubmit h env act isBorrow True st) = Some ''Amount higher than available.''
             \<and> sent (handleSubmit h env act isBorrow True st) = sent st"
    and "m = Some x \<and> x \<noteq> 0 \<and> parsedAmount \<le> x \<Longrightarrow>
               sent (handleSubmit h env act isBorrow True st) = sent st
             \<or> (\<exists>g. sent (handleSubmit h env act isBorrow True st) = sent st @ [VaultTx act isBorrow x g])"
proof -
  let ?st0 = "st\<lparr>loading := True, error := None, success := None\<rparr>"
  have na: "\<not> needsApproval act" using ra by auto
  have k: "sent st2 = sent st" using refetchMaxBeforeTx_keeps [OF r] by simp
  note ep = executePhase_max [OF ra r, of parsedAmount]
  have tr: "handleSubmit_try h env act isBorrow True ?st0 =
          (case executePhase h env act isBorrow True parsedAmount ?st0 of
                    (Inl e, st4) \<Rightarrow> (Some e, st4)
                  | (Inr executed, st4) \<Rightarrow>
                      if \<not> executed then (None, st4)
                      else
                        (None, st4\<lparr>amountText := [],
                                   success := Some (actionNameCapitalized act @ '' successful!'')\<rparr>))"
    using pa na by (simp add: handleSubmit_try_def approvalPhase_none)
  show "m = None \<or> m = Some 0 \<Longrightarrow>
               error (handleSubmit h env act isBorrow True st) = Some ''Error refetching max amount before tx.''
             \<and> sent (handleSubmit h env act isBorrow True st) = sent st"
    using hv k by (auto simp: handleSubmit_def Let_def tr ep logError_def)
  show "m = Some x \<and> x \<noteq> 0 \<and> x < parsedAmount \<Longrightarrow>
               error (handleSubmit h env act isBorrow True st) = Some ''Amount higher than available.''
             \<and> sent (handleSubmit h env act isBorrow True st) = sent st"
    using hv k by (auto simp: handleSubmit_def Let_def tr ep logError_def)
  show "m = Some x \<and> x \<noteq> 0 \<and> parsedAmount \<le> x \<Longrightarrow>
               sent (handleSubmit h env act isBorrow True st) = sent st
             \<or> (\<exists>g. sent (handleSubmit h env act isBorrow True st) = sent st @ [VaultTx act isBorrow x g])"
  proof -
    assume c: "m = Some x \<and> x \<noteq> 0 \<and> parsedAmount \<le> x"
    obtain res st3 where ex: "executeVaultMethod h env act isBorrow x st2 = (res, st3)"
      by (cases "executeVaultMethod h env act isBorrow x st2") auto
    have s3: "sent st3 = sent st \<or> (\<exists>g. sent st3 = sent st @ [VaultTx act isBorrow x g])"
      using executeVaultMethod_keeps [OF ex] k by auto
    have "sent (handleSubmit h env act isBorrow True st) = sent st3"
      using hv c ex
      by (auto simp: handleSubmit_def Let_def tr ep logError_def split: option.splits)
    then show ?thesis using s3 by simp
  qed
qed

lemma safe_recheck_outcomes:
  assumes ra: "act = Redeem \<or> act = Withdraw"
    and hv: "hasVault h" "hasAddress h" "if isBorrow then hasSafeHelperBorrow h else hasSafeHelperCollateral h"
    and pa: "parseUnits env (amountText st) = Inr parsedAmount"
    and sv: "slippageValid env"
    and sb: "calculateSlippageBound h env act isBorrow parsedAmount
               (st\<lparr>loading := True, error := None, success := None\<rparr>) = (Some bound, s1)"
    and ap: "approvalPhase_safe h env act isBorrow parsedAmount bound s1 = (Inr True, s2)"
    and r: "refetchMaxBeforeTx h env act isBorrow s2 = (m, s3)"
  shows "m = None \<or> m = Some 0 \<Longrightarrow>
               error (handleSubmit_safe h env act isBorrow True st) = Some ''Error refetching max amount before tx.''
             \<and> sent (handleSubmit_safe h env act isBorrow True st) = sent s2"
    and "m = Some x \<and> x \<noteq> 0 \<and> x < parsedAmount \<Longrightarrow>
               error (handleSubmit_safe h env act isBorrow True st) = Some ''Amount higher than available.''
             \<and> sent (handleSubmit_safe h env act isBorrow True st) = sent s2"
    and "sent s2 = sent st \<or> (\<exists>n. sent s2 = sent st @ [ApproveTx Shares n])"
proof -
  let ?st0 = "st\<lparr>loading := True, error := None, success := None\<rparr>"
  have k1: "sent s1 = sent st" using calculateSlippageBound_keeps [OF sb] by simp
  have k3: "sent s3 = sent s2" using refetchMaxBeforeTx_keeps [OF r] by simp
  note mp = maxPhase_safe_abort [OF ra r, of parsedAmount bound]
  have tr: "handleSubmit_safe_try h env act isBorrow True ?st0 =
        (case maxPhase_safe h env act isBorrow True parsedAmount bound s2 of
                           (None, st3) \<Rightarrow> (None, st3)
                         | (Some (finalAmount, finalSlippageBound), st3) \<Rightarrow>
                             (case executeSafeMethod h env act isBorrow finalAmount finalSlippageBound st3 of
                                (Some e, st4) \<Rightarrow> (Some e, st4)
                              | (None, st4) \<Rightarrow>
                                  (None, st4\<lparr>amountText := [],
                                             success := Some (actionNameCapitalized act @ '' successful!'')\<rparr>)))"
    using pa sv sb ap by (simp add: handleSubmit_safe_try_def)
  have hs: "handleSubmit_safe h env act isBorrow True st =
        (case handleSubmit_safe_try h env act isBorrow True ?st0 of
           (None, st1) \<Rightarrow> st1\<lparr>loading := False\<rparr>
         | (Some err, st1) \<Rightarrow>
             (if isUserRejected err then st1\<lparr>error := Some ''Transaction canceled by user.''\<rparr>
              else logError (''Failed to '' @ actionName act @ '': '')
                     (st1\<lparr>error := Some (''Failed to '' @ actionName act @ ''.'')\<rparr>))
             \<lparr>loading := False\<rparr>)"
    using hv by (auto simp: handleSubmit_safe_def Let_def)
  show "m = None \<or> m = Some 0 \<Longrightarrow>
               error (handleSubmit_safe h env act isBorrow True st) = Some ''Error refetching max amount before tx.''
             \<and> sent (handleSubmit_safe h env act isBorrow True st) = sent s2"
    using mp k3 by (auto simp: hs tr logError_def)
  show "m = Some x \<and> x \<noteq> 0 \<and> x < parsedAmount \<Longrightarrow>
               error (handleSubmit_safe h env act isBorrow True st) = Some ''Amount higher than available.''
             \<and> sent (handleSubmit_safe h env act isBorrow True st) = sent s2"
    using mp k3 by (auto simp: hs tr logError_def)
  show "sent s2 = sent st \<or> (\<exists>n. sent s2 = sent st @ [ApproveTx Shares n])"
    using approvalPhase_safe_sent [OF ra ap] k1 by auto
qed

lemma refetchMaxBeforeTx_nonzero:
  "refetchMaxBeforeTx h env act isBorrow st = (Some x, st') \<Longrightarrow> x \<noteq> 0 \<Longrightarrow>
     hasVaultLens h \<and> hasAddress h"
  by (auto simp: refetchMaxBeforeTx_def split: if_splits sum.splits)

lemma action_recheck_pass:
  assumes ra: "act = Redeem \<or> act = Withdraw"
    and hv: "hasVault h" "hasAddress h"
    and pa: "parseUnits env (amountText st) = Inr parsedAmount"
    and r: "refetchMaxBeforeTx h env act isBorrow (st\<lparr>loading := True, error := None, success := None\<rparr>)
              = (m, st2)"
    and c: "m = Some x \<and> x \<noteq> 0 \<and> parsedAmount \<le> x"
  shows "vaultLens_estimateGas env act isBorrow x = Inr g
           \<and> vault_send env act isBorrow x (applyGasSlippage env g) = Inr resp \<Longrightarrow>
         sent (handleSubmit h env act isBorrow True st)
           = sent st @ [VaultTx act isBorrow x (applyGasSlippage env g)]"
    and "vaultLens_estimateGas env act isBorrow x = Inl e
           \<or> (vaultLens_estimateGas env act isBorrow x = Inr g
               \<and> vault_send env act isBorrow x (applyGasSlippage env g) = Inl e) \<Longrightarrow>
         sent (handleSubmit h env act isBorrow True st) = sent st"
proof -
  let ?st0 = "st\<lparr>loading := True, error := None, success := None\<rparr>"
  have na: "\<not> needsApproval act" using ra by auto
  have k: "sent st2 = sent st" using refetchMaxBeforeTx_keeps [OF r] by simp
  have hl: "hasVaultLens h" using refetchMaxBeforeTx_nonzero [of h env act isBorrow ?st0 x st2] r c by simp
  note ep = executePhase_max [OF ra r, of parsedAmount]
  have tr: "handleSubmit_try h env act isBorrow True ?st0 =
          (case executePhase h env act isBorrow True parsedAmount ?st0 of
                    (Inl e, st4) \<Rightarrow> (Some e, st4)
                  | (Inr executed, st4) \<Rightarrow>
                      if \<not> executed then (None, st4)
                      else
                        (None, st4\<lparr>amountText := [],
                                   success := Some (actionNameCapitalized act @ '' successful!'')\<rparr>))"
    using pa na by (simp add: handleSubmit_try_def approvalPhase_none)
  show "vaultLens_estimateGas env act isBorrow x = Inr g
           \<and> vault_send env act isBorrow x (applyGasSlippage env g) = Inr resp \<Longrightarrow>
         sent (handleSubmit h env act isBorrow True st)
           = sent st @ [VaultTx act isBorrow x (applyGasSlippage env g)]"
    using hv hl c k
    by (auto simp: handleSubmit_def Let_def tr ep logError_def executeVaultMethod_def
          split: option.splits)
  show "vaultLens_estimateGas env act isBorrow x = Inl e
           \<or> (vaultLens_estimateGas env act isBorrow x = Inr g
               \<and> vault_send env act isBorrow x (applyGasSlippage env g) = Inl e) \<Longrightarrow>
         sent (handleSubmit h env act isBorrow True st) = sent st"
    using hv hl c k
    by (auto simp: handleSubmit_def Let_def tr ep logError_def executeVaultMethod_def
          split: option.splits)
qed

lemma maxPhase_safe_pass:
  assumes "act = Redeem \<or> act = Withdraw"
    and "refetchMaxBeforeTx h env act isBorrow st = (Some x, st2)"
    and "x \<noteq> 0" "parsedAmount \<le> x"
  shows "maxPhase_safe h env act isBorrow True parsedAmount bound st =
           (case calculateSlippageBound h env act isBorrow x st2 of
              (None, st3) \<Rightarrow> (None, st3\<lparr>error := Some ''Error calculating slippage bound.''\<rparr>)
            | (Some adjustedSlippageBound, st3) \<Rightarrow> (Some (x, adjustedSlippageBound), st3))"
  using assms by (auto simp: maxPhase_safe_def)

lemma safe_recheck_pass:
  assumes ra: "act = Redeem \<or> act = Withdraw"
    and hv: "hasVault h" "hasAddress h" "if isBorrow then hasSafeHelperBorrow h else hasSafeHelperCollateral h"
    and pa: "parseUnits env (amountText st) = Inr parsedAmount"
    and sv: "slippageValid env"
    and sb: "calculateSlippageBound h env act isBorrow parsedAmount
               (st\<lparr>loading := True, error := None, success := None\<rparr>) = (Some bound, s1)"
    and ap: "approvalPhase_safe h env act isBorrow parsedAmount bound s1 = (Inr True, s2)"
    and r: "refetchMaxBeforeTx h env act isBorrow s2 = (m, s3)"
    and c: "m = Some x \<and> x \<noteq> 0 \<and> parsedAmount \<le> x"
  shows "calculateSlippageBound h env act isBorrow x s3 = (None, s4) \<Longrightarrow>
           error (handleSubmit_safe h env act isBorrow True st) = Some ''Error calculating slippage bound.''
         \<and> sent (handleSubmit_safe h env act isBorrow True st) = sent s2"
    and "calculateSlippageBound h env act isBorrow x s3 = (Some b2, s4)
           \<and> safeHelper_estimateGas env act isBorrow x b2 = Inr g
           \<and> safeHelper_send env act isBorrow x b2 (applyGasSlippage env g) = Inr resp \<Longrightarrow>
         sent (handleSubmit_safe h env act isBorrow True st)
           = sent s2 @ [SafeTx act isBorrow x b2 (applyGasSlippage env g)]"
    and "calculateSlippageBound h env act isBorrow x s3 = (Some b2, s4)
           \<and> (safeHelper_estimateGas env act isBorrow x b2 = Inl e
               \<or> (safeHelper_estimateGas env act isBorrow x b2 = Inr g
                   \<and> safeHelper_send env act isBorrow x b2 (applyGasSlippage env g) = Inl e)) \<Longrightarrow>
         sent (handleSubmit_safe h env act isBorrow True st) = sent s2"
proof -
  let ?st0 = "st\<lparr>loading := True, error := None, success := None\<rparr>"
  have k3: "sent s3 = sent s2" using refetchMaxBeforeTx_keeps [OF r] by simp
  have r': "refetchMaxBeforeTx h env act isBorrow s2 = (Some x, s3)" using r c by simp
  have mp: "maxPhase_safe h env act isBorrow True parsedAmount bound s2 =
           (case calculateSlippageBound h env act isBorrow x s3 of
              (None, st3) \<Rightarrow> (None, st3\<lparr>error := Some ''Error calculating slippage bound.''\<rparr>)
            | (Some adjustedSlippageBound, st3) \<Rightarrow> (Some (x, adjustedSlippageBound), st3))"
    using maxPhase_safe_pass [OF ra r'] c by simp
  have tr: "handleSubmit_safe_try h env act isBorrow True ?st0 =
        (case maxPhase_safe h env act isBorrow True parsedAmount bound s2 of
                           (None, st3) \<Rightarrow> (None, st3)
                         | (Some (finalAmount, finalSlippageBound), st3) \<Rightarrow>
                             (case executeSafeMethod h env act isBorrow finalAmount finalSlippageBound st3 of
                                (Some e, st4) \<Rightarrow> (Some e, st4)
                              | (None, st4) \<Rightarrow>
                                  (None, st4\<lparr>amountText := [],
                                             success := Some (actionNameCapitalized act @ '' successful!'')\<rparr>)))"
    using pa sv sb ap by (simp add: handleSubmit_safe_try_def)
  have hs: "handleSubmit_safe h env act isBorrow True st =
        (case handleSubmit_safe_try h env act isBorrow True ?st0 of
           (None, st1) \<Rightarrow> st1\<lparr>loading := False\<rparr>
         | (Some err, st1) \<Rightarrow>
             (if isUserRejected err then st1\<lparr>error := Some ''Transaction canceled by user.''\<rparr>
              else logError (''Failed to '' @ actionName act @ '': '')
                     (st1\<lparr>error := Some (''Failed to '' @ actionName act @ ''.'')\<rparr>))
             \<lparr>loading := False\<rparr>)"
    using hv by (auto simp: handleSubmit_safe_def Let_def)
  show "calculateSlippageBound h env act isBorrow x s3 = (None, s4) \<Longrightarrow>
           error (handleSubmit_safe h env act isBorrow True st) = Some ''Error calculating slippage bound.''
         \<and> sent (handleSubmit_safe h env act isBorrow True st) = sent s2"
    using k3 calculateSlippageBound_keeps [of h env act isBorrow x s3 None s4]
    by (auto simp: hs tr mp)
  show "calculateSlippageBound h env act isBorrow x s3 = (Some b2, s4)
           \<and> safeHelper_estimateGas env act isBorrow x b2 = Inr g
           \<and> safeHelper_send env act isBorrow x b2 (applyGasSlippage env g) = Inr resp \<Longrightarrow>
         sent (handleSubmit_safe h env act isBorrow True st)
           = sent s2 @ [SafeTx act isBorrow x b2 (applyGasSlippage env g)]"
    using hv k3 calculateSlippageBound_keeps [of h env act isBorrow x s3 "Some b2" s4]
    by (auto simp: hs tr mp executeSafeMethod_def logError_def split: option.splits if_splits)
  show "calculateSlippageBound h env act isBorrow x s3 = (Some b2, s4)
           \<and> (safeHelper_estimateGas env act isBorrow x b2 = Inl e
               \<or> (safeHelper_estimateGas env act isBorrow x b2 = Inr g
                   \<and> safeHelper_send env act isBorrow x b2 (applyGasSlippage env g) = Inl e)) \<Longrightarrow>
         sent (handleSubmit_safe h env act isBorrow True st) = sent s2"
    using hv k3 calculateSlippageBound_keeps [of h env act isBorrow x s3 "Some b2" s4]
    by (auto simp: hs tr mp executeSafeMethod_def logError_def split: option.splits if_splits)
qed

text \<open>
  Claim C6, amended. A submission of a redeem or a withdraw with "max" selected, whose
  input parses, re-fetches the maximum right before the vault call (in the safe handler,
  after the slippage bound and the share approval). If the re-fetch fails or answers
  zero, the submission stops with \<open>Error refetching max amount before tx.\<close>; if it answers
  a non-zero maximum below the entered amount, the submission stops with
  \<open>Amount higher than available.\<close>. In both cases no redeem or withdraw transaction is
  sent: \<open>ActionHandler\<close> has sent nothing, the safe handler at most the approval of the
  shares that precedes the re-check. Otherwise the call is made with the re-fetched
  maximum in place of the entered amount: once the gas estimate resolves and the signer
  sends, the transaction sent is the vault method with the re-fetched maximum (in the safe
  handler the helper method with the re-fetched maximum and the slippage bound computed
  anew for it, and the submission stops with \<open>Error calculating slippage bound.\<close> when
  that bound cannot be computed); when the estimate or the send is rejected, nothing is
  sent.
\<close>

theorem stale_max_guard:
  assumes "act = Redeem \<or> act = Withdraw"
  shows "(hasVault h \<and> hasAddress h \<and> parseUnits env (amountText st) = Inr parsedAmount
          \<and> refetchMaxBeforeTx h env act isBorrow (st\<lparr>loading := True, error := None, success := None\<rparr>)
              = (m, st2) \<longrightarrow>
            (m = None \<or> m = Some 0 \<longrightarrow>
               error (handleSubmit h env act isBorrow True st) = Some ''Error refetching max amount before tx.''
             \<and> sent (handleSubmit h env act isBorrow True st) = sent st)
          \<and> (\<forall>x. m = Some x \<and> x \<noteq> 0 \<and> x < parsedAmount \<longrightarrow>
               error (handleSubmit h env act isBorrow True st) = Some ''Amount higher than available.''
             \<and> sent (handleSubmit h env act isBorrow True st) = sent st)
          \<and> (\<forall>x. m = Some x \<and> x \<noteq> 0 \<and> parsedAmount \<le> x \<longrightarrow>
               sent (handleSubmit h env act isBorrow True st) = sent st
             \<or> (\<exists>g. sent (handleSubmit h env act isBorrow True st) = sent st @ [VaultTx act isBorrow x g]))
          \<and> (\<forall>x g resp. m = Some x \<and> x \<noteq> 0 \<and> parsedAmount \<le> x
               \<and> vaultLens_estimateGas env act isBorrow x = Inr g
               \<and> vault_send env act isBorrow x (applyGasSlippage env g) = Inr resp \<longrightarrow>
               sent (handleSubmit h env act isBorrow True st)
                 = sent st @ [VaultTx act isBorrow x (applyGasSlippage env g)])
          \<and> (\<forall>x g e. m = Some x \<and> x \<noteq> 0 \<and> parsedAmount \<le> x
               \<and> (vaultLens_estimateGas env act isBorrow x = Inl e
                    \<or> (vaultLens_estimateGas env act isBorrow x = Inr g
                        \<and> vault_send env act isBorrow x (applyGasSlippage env g) = Inl e)) \<longrightarrow>
               sent (handleSubmit h env act isBorrow True st) = sent st))
       \<and> (hasVault h \<and> hasAddress h \<and> (if isBorrow then hasSafeHelperBorrow h else hasSafeHelperCollateral h)
          \<and> parseUnits env (amountText st) = Inr parsedAmount \<and> slippageValid env
          \<and> calculateSlippageBound h env act isBorrow parsedAmount
               (st\<lparr>loading := True, error := None, success := None\<rparr>) = (Some bound, s1)
          \<and> approvalPhase_safe h env act isBorrow parsedAmount bound s1 = (Inr True, s2)
          \<and> refetchMaxBeforeTx h env act isBorrow s2 = (m', s3) \<longrightarrow>
            (m' = None \<or> m' = Some 0 \<longrightarrow>
               error (handleSubmit_safe h env act isBorrow True st) = Some ''Error refetching max amount before tx.''
             \<and> sent (handleSubmit_safe h env act isBorrow True st) = sent s2)
          \<and> (\<forall>x. m' = Some x \<and> x \<noteq> 0 \<and> x < parsedAmount \<longrightarrow>
               error (handleSubmit_safe h env act isBorrow True st) = Some ''Amount higher than available.''
             \<and> sent (handleSubmit_safe h env act isBorrow True st) = sent s2)
          \<and> (sent s2 = sent st \<or> (\<exists>n. sent s2 = sent st @ [ApproveTx Shares n]))
          \<and> (\<forall>x s4. m' = Some x \<and> x \<noteq> 0 \<and> parsedAmount \<le> x
               \<and> calculateSlippageBound h env act isBorrow x s3 = (None, s4) \<longrightarrow>
               error (handleSubmit_safe h env act isBorrow True st) = Some ''Error calculating slippage bound.''
             \<and> sent (handleSubmit_safe h env act isBorrow True st) = sent s2)
          \<and> (\<forall>x b2 s4 g resp. m' = Some x \<and> x \<noteq> 0 \<and> parsedAmount \<le> x
               \<and> calculateSlippageBound h env act isBorrow x s3 = (Some b2, s4)
               \<and> safeHelper_estimateGas env act isBorrow x b2 = Inr g
               \<and> safeHelper_send env act isBorrow x b2 (applyGasSlippage env g) = Inr resp \<longrightarrow>
               sent (handleSubmit_safe h env act isBorrow True st)
                 = sent s2 @ [SafeTx act isBorrow x b2 (applyGasSlippage env g)])
          \<and> (\<forall>x b2 s4 g e. m' = Some x \<and> x \<noteq> 0 \<and> parsedAmount \<le> x
               \<and> calculateSlippageBound h env act isBorrow x s3 = (Some b2, s4)
               \<and> (safeHelper_estimateGas env act isBorrow x b2 = Inl e
                    \<or> (safeHelper_estimateGas env act isBorrow x b2 = Inr g
                        \<and> safeHelper_send env act isBorrow x b2 (applyGasSlippage env g) = Inl e)) \<longrightarrow>
               sent (handleSubmit_safe h env act isBorrow True st) = sent s2))"
  apply (rule conjI; rule impI; elim conjE)
  subgoal
    apply (intro conjI allI impI)
    subgoal using action_recheck_outcomes(1) [OF assms] by blast
    subgoal using action_recheck_outcomes(1) [OF assms] by blast
    subgoal using action_recheck_outcomes(2) [OF assms] by blast
    subgoal using action_recheck_outcomes(2) [OF assms] by blast
    subgoal using action_recheck_outcomes(3) [OF assms] by blast
    subgoal using action_recheck_pass(1) [OF assms] by blast
    subgoal using action_recheck_pass(2) [OF assms] by blast
    done
  subgoal
    apply (intro conjI allI impI)
    subgoal using safe_recheck_outcomes(1) [OF assms] by blast
    subgoal using safe_recheck_outcomes(1) [OF assms] by blast
    subgoal using safe_recheck_outcomes(2) [OF assms] by blast
    subgoal using safe_recheck_outcomes(2) [OF assms] by blast
    subgoal using safe_recheck_outcomes(3) [OF assms] by blast
    subgoal using safe_recheck_pass(1) [OF assms] by blast
    subgoal using safe_recheck_pass(1) [OF assms] by blast
    subgoal using safe_recheck_pass(2) [OF assms] by blast
    subgoal using safe_recheck_pass(3) [OF assms] by blast
    done
  done


text \<open>
  The scenario of the spec: the input reads \<open>50\<close> with "max" selected, and by the time
  of the submission the vault's withdraw maximum has dropped to \<open>45\<close>: nothing is sent.
  When it has risen to \<open>60\<close> instead, the withdraw is sent for \<open>60\<close>, by the vault
  and, after the approval of the shares, by the safe helper with the bound for \<open>60\<close>.
\<close>

theorem stale_max_guard_witness:
  "error (handleSubmit sampleHandles (sampleEnv\<lparr>vaultLens_maxWithdraw := (\<lambda>b. Inr 45)\<rparr>)
            Withdraw True True sampleState) = Some ''Amount higher than available.''
   \<and> sent (handleSubmit sampleHandles (sampleEnv\<lparr>vaultLens_maxWithdraw := (\<lambda>b. Inr 45)\<rparr>)
            Withdraw True True sampleState) = []
   \<and> sent (handleSubmit sampleHandles (sampleEnv\<lparr>vaultLens_maxWithdraw := (\<lambda>b. Inr 60)\<rparr>)
            Withdraw True True sampleState) = [VaultTx Withdraw True 60 42000]
   \<and> sent (handleSubmit_safe sampleHandles (sampleEnv\<lparr>vaultLens_maxWithdraw := (\<lambda>b. Inr 60)\<rparr>)
            Withdraw True True sampleState) = [ApproveTx Shares 50, SafeTx Withdraw True 60 60 42000]"
  using stale_max_guard [where act = Withdraw and h = sampleHandles
      and env = "sampleEnv\<lparr>vaultLens_maxWithdraw := (\<lambda>b. Inr 45)\<rparr>" and st = sampleState
      and parsedAmount = 50 and isBorrow = True and m = "Some 45"
      and ?st2.0 = "sampleState\<lparr>loading := True, error := None, success := None\<rparr>"]
    stale_max_guard [where act = Withdraw and h = sampleHandles
      and env = "sampleEnv\<lparr>vaultLens_maxWithdraw := (\<lambda>b. Inr 60)\<rparr>" and st = sampleState
      and parsedAmount = 50 and isBorrow = True and m = "Some 60"
      and ?st2.0 = "sampleState\<lparr>loading := True, error := None, success := None\<rparr>"
      and bound = 50
      and ?s1.0 = "sampleState\<lparr>loading := True, error := None, success := None\<rparr>"
      and ?s2.0 = "sampleState\<lparr>loading := True, error := None,
                     success := Some ''Successfully approved SHR.'', sent := [ApproveTx Shares 50]\<rparr>"
      and m' = "Some 60"
      and ?s3.0 = "sampleState\<lparr>loading := True, error := None,
                     success := Some ''Successfully approved SHR.'', sent := [ApproveTx Shares 50]\<rparr>"]
  by (simp add: sampleHandles_def sampleEnv_def sampleState_def refetchMaxBeforeTx_def
      calculateSlippageBound_def approvalPhase_safe_def handleApproval_safe_def bigint_div_def Let_def)

text \<open>
  Claim C6 as stated fails when the re-fetched maximum is zero: it is smaller than the
  entered \<open>50\<close>, yet the message is not \<open>Amount higher than available.\<close>. And in the
  safe handler a transaction has been sent when the re-check stops the submission: the
  approval of \<open>50\<close> shares.
\<close>

theorem stale_max_guard_counterexample:
  "fst (refetchMaxBeforeTx sampleHandles (sampleEnv\<lparr>vaultLens_maxWithdraw := (\<lambda>b. Inr 0)\<rparr>)
          Withdraw True (sampleState\<lparr>loading := True\<rparr>)) = Some 0
   \<and> parseUnits sampleEnv (amountText sampleState) = Inr 50
   \<and> error (handleSubmit sampleHandles (sampleEnv\<lparr>vaultLens_maxWithdraw := (\<lambda>b. Inr 0)\<rparr>)
            Withdraw True True sampleState) = Some ''Error refetching max amount before tx.''
   \<and> error (handleSubmit_safe sampleHandles (sampleEnv\<lparr>vaultLens_maxWithdraw := (\<lambda>b. Inr 45)\<rparr>)
            Withdraw True True sampleState) = Some ''Amount higher than available.''
   \<and> sent (handleSubmit_safe sampleHandles (sampleEnv\<lparr>vaultLens_maxWithdraw := (\<lambda>b. Inr 45)\<rparr>)
            Withdraw True True sampleState) = [ApproveTx Shares 50]"
  by (simp add: sampleHandles_def sampleEnv_def sampleState_def refetchMaxBeforeTx_def
      handleSubmit_def handleSubmit_try_def approvalPhase_def executePhase_def logError_def
      handleSubmit_safe_def handleSubmit_safe_try_def calculateSlippageBound_def
      approvalPhase_safe_def handleApproval_safe_def maxPhase_safe_def bigint_div_def Let_def)

text \<open>
  Claim C7, amended. When the \<open>try\<close> block of a submission throws, the handler tells a
  rejection by the user from any other failure: for a rejection it sets the error message
  \<open>Transaction canceled by user.\<close>, which is displayed like any other error, and logs
  nothing; for any other failure it sets \<open>Failed to <action>.\<close> (\<open>Failed to execute low
  level rebalance.\<close> in the rebalance handler) and logs the error. In both cases it
  clears the loading flag. In particular, when the signer declines the vault transaction
  of a withdraw or redeem, nothing is sent and the state differs from the one before the
  submission only by that message.
\<close>

theorem user_rejection_outcome:
  "(hasVault h \<and> hasAddress h
     \<and> handleSubmit_try h env act isBorrow isMax (st\<lparr>loading := True, error := None, success := None\<rparr>)
         = (Some err, st1) \<longrightarrow>
       handleSubmit h env act isBorrow isMax st =
         (if isUserRejected err then
            st1\<lparr>error := Some ''Transaction canceled by user.'', loading := False\<rparr>
          else
            st1\<lparr>error := Some (''Failed to '' @ actionName act @ ''.''),
                console := console st1 @ [''Failed to '' @ actionName act @ '': ''],
                loading := False\<rparr>))
   \<and> (hasVault h \<and> hasVaultLens h \<and> hasAddress h \<and> amountSigned rst = Some amt \<and> amt \<noteq> 0
     \<and> handleSubmit_rebalance_try h renv rebalanceType actionType amt
          (rst\<lparr>loading := True, error := None, success := None, approvalError := None\<rparr>)
         = (Some err, rst1) \<longrightarrow>
       handleSubmit_rebalance h renv rebalanceType actionType rst =
         (if isUserRejected err then
            rst1\<lparr>error := Some ''Transaction canceled by user.'', loading := False\<rparr>
          else
            rst1\<lparr>error := Some ''Failed to execute low level rebalance.'',
                 console := console rst1 @ [''Failed to execute low level rebalance:''],
                 loading := False\<rparr>))
   \<and> (hasVault h \<and> hasVaultLens h \<and> hasAddress h \<and> (act = Withdraw \<or> act = Redeem) \<and> \<not> isMax
     \<and> parseUnits env (amountText st) = Inr n
     \<and> vaultLens_estimateGas env act isBorrow n = Inr g
     \<and> vault_send env act isBorrow n (applyGasSlippage env g) = Inl err
     \<and> isUserRejected err \<longrightarrow>
       handleSubmit h env act isBorrow isMax st =
         st\<lparr>loading := False, error := Some ''Transaction canceled by user.'', success := None\<rparr>)"
  by (auto simp: handleSubmit_def handleSubmit_rebalance_def Let_def logError_def
        handleSubmit_try_def approvalPhase_def executePhase_def executeVaultMethod_def)

text \<open>
  The signer declines the withdraw of the sample session, and the rebalance of the
  sample rebalance.
\<close>

theorem user_rejection_outcome_witness:
  "handleSubmit sampleHandles (sampleEnv\<lparr>vault_send := (\<lambda>a b n g. Inl (JsError True))\<rparr>)
      Withdraw True False sampleState
     = sampleState\<lparr>error := Some ''Transaction canceled by user.''\<rparr>"
  using user_rejection_outcome [where h = sampleHandles
      and env = "sampleEnv\<lparr>vault_send := (\<lambda>a b n g. Inl (JsError True))\<rparr>"
      and act = Withdraw and isBorrow = True and isMax = False and st = sampleState
      and n = 50 and g = 21000 and err = "JsError True"]
  by (simp add: sampleHandles_def sampleEnv_def sampleState_def)

text \<open>
  Claim C7 as stated fails: after the signer has declined, the error message of the
  component is set, in the action handler and in the rebalance handler alike.
\<close>

theorem user_rejection_counterexample:
  "error (handleSubmit sampleHandles (sampleEnv\<lparr>vault_send := (\<lambda>a b n g. Inl (JsError True))\<rparr>)
            Withdraw True False sampleState) \<noteq> None
   \<and> error (handleSubmit_rebalance sampleHandles
              (sampleRebalanceEnv\<lparr>rb_send := (\<lambda>t n hint g. Inl (JsError True))\<rparr>)
              Shares RMint sampleRebalanceState)
       = Some ''Transaction canceled by user.''
   \<and> sent (handleSubmit_rebalance sampleHandles
              (sampleRebalanceEnv\<lparr>rb_send := (\<lambda>t n hint g. Inl (JsError True))\<rparr>)
              Shares RMint sampleRebalanceState)
       = [ApproveTx Collateral 7]"
  by (simp add: sampleHandles_def sampleEnv_def sampleState_def sampleRebalanceEnv_def
      sampleRebalanceState_def handleSubmit_def handleSubmit_try_def approvalPhase_def
      executePhase_def executeVaultMethod_def handleSubmit_rebalance_def
      handleSubmit_rebalance_try_def checkAndApproveRequiredAssets_def prepareRebalance_def Let_def
      getReceiveAndProvide_def addToList_def hasMetadataToken_def)

end
